theory Spec2Isabelle
  imports Main
begin

section \<open>Data model of the study page\<close>

text \<open>
  The study page (\<^verbatim>\<open>src/pages/StudyPage.tsx\<close>) works on records of type
  \<^verbatim>\<open>StudyMaterial\<close>. The fields below are the ones the page reads or writes. An
  optional field of the TypeScript type is an \<open>option\<close>: \<open>None\<close> is JavaScript's
  \<^verbatim>\<open>undefined\<close>. JavaScript strings are modelled as \<open>string\<close>.
\<close>

datatype Sender = User | Ai

record GroundingSource =
  uri :: string
  source_title :: "string option"

record ChatMessage =
  msg_id :: string
  sender :: Sender
  msg_text :: string
  timestamp :: string
  groundingSources :: "GroundingSource list option"

record SlideContent =
  slide_title :: string
  slide_content :: "string list"
  slide_imagePrompt :: string
  slide_imageUrl :: "string option"

record PresentationContent =
  presentation_title :: string
  slides :: "SlideContent list"

record VideoScene =
  script :: string
  imagePrompt :: string
  imageUrl :: "string option"

datatype NoteLength = SHORT | MEDIUM | DETAILED

type_synonym Notes = "NoteLength \<rightharpoonup> string"

record StudyMaterial =
  material_id :: string
  title :: string
  subject :: string
  topic :: string
  difficulty :: string
  material_type :: string
  extractedText :: "string option"
  aiSummary :: "string option"
  aiExplanation :: "string option"
  material_notes :: "Notes option"
  presentationContent :: "PresentationContent option"
  blockDiagramMermaid :: "string option"
  videoScenes :: "VideoScene list option"
  chatHistory :: "ChatMessage list option"

text \<open>
  JavaScript truthiness of an optional string: \<^verbatim>\<open>undefined\<close> and the empty string are
  falsy, every other string is truthy. \<^verbatim>\<open>a || b\<close> on such values is \<open>or_else\<close>.
\<close>

definition truthy :: "string option \<Rightarrow> bool" where
  "truthy s = (case s of None \<Rightarrow> False | Some t \<Rightarrow> t \<noteq> [])"

definition or_else :: "string option \<Rightarrow> string \<Rightarrow> string" where
  "or_else s d = (case s of None \<Rightarrow> d | Some t \<Rightarrow> if t = [] then d else t)"

text \<open>\<^verbatim>\<open>xs || []\<close> for an optional array, and \<^verbatim>\<open>{...obj}\<close> for an optional object.\<close>

definition or_empty :: "'a list option \<Rightarrow> 'a list" where
  "or_empty xs = (case xs of None \<Rightarrow> [] | Some ys \<Rightarrow> ys)"

definition spread :: "Notes option \<Rightarrow> Notes" where
  "spread n = (case n of None \<Rightarrow> Map.empty | Some m \<Rightarrow> m)"

text \<open>
  An exception is an \<^verbatim>\<open>Error\<close> object; the handlers only ever read its
  \<^verbatim>\<open>message\<close>.
\<close>

datatype thrown = Error (message: string)

subsection \<open>The content store\<close>

text \<open>
  A store update is a partial record: the list of the fields it sets, each with its new
  value (which may be \<^verbatim>\<open>undefined\<close>).
\<close>

datatype field_update =
    Set_aiSummary "string option"
  | Set_aiExplanation "string option"
  | Set_notes "Notes option"
  | Set_presentationContent "PresentationContent option"
  | Set_blockDiagramMermaid "string option"
  | Set_videoScenes "VideoScene list option"
  | Set_chatHistory "ChatMessage list option"

type_synonym patch = "field_update list"

type_synonym store = "string \<rightharpoonup> StudyMaterial"

fun set_field :: "field_update \<Rightarrow> StudyMaterial \<Rightarrow> StudyMaterial" where
  "set_field (Set_aiSummary v) m = m\<lparr>aiSummary := v\<rparr>"
| "set_field (Set_aiExplanation v) m = m\<lparr>aiExplanation := v\<rparr>"
| "set_field (Set_notes v) m = m\<lparr>material_notes := v\<rparr>"
| "set_field (Set_presentationContent v) m = m\<lparr>presentationContent := v\<rparr>"
| "set_field (Set_blockDiagramMermaid v) m = m\<lparr>blockDiagramMermaid := v\<rparr>"
| "set_field (Set_videoScenes v) m = m\<lparr>videoScenes := v\<rparr>"
| "set_field (Set_chatHistory v) m = m\<lparr>chatHistory := v\<rparr>"

definition merge :: "StudyMaterial \<Rightarrow> patch \<Rightarrow> StudyMaterial" where
  "merge m p = fold set_field p m"

text \<open>
  The page obtains \<^verbatim>\<open>getStudyMaterialById\<close> and \<^verbatim>\<open>updateStudyMaterial\<close> from
  the hook \<^verbatim>\<open>useUploadedContent()\<close>. The handlers are written against this pair of
  operations; an update may throw.
\<close>

record content_hook =
  getStudyMaterialById :: "store \<Rightarrow> string \<Rightarrow> StudyMaterial option"
  updateStudyMaterial :: "store \<Rightarrow> string \<Rightarrow> patch \<Rightarrow> thrown + store"

text \<open>
  Modelled from the spec: the module \<^verbatim>\<open>contexts/UploadedContentContext\<close> that
  implements the two operations is not among the sources. The spec describes the store as a
  keyed collection of StudyMaterial records supporting get-by-id and partial-update-by-id,
  where every mutation is a field-scoped merge keyed by material id and never a full-record
  replace.
\<close>

definition get_by_id :: "store \<Rightarrow> string \<Rightarrow> StudyMaterial option" where
  "get_by_id s i = s i"

text \<open>
  Modelled from the spec: \<^verbatim>\<open>updateStudyMaterial\<close> of the missing module, as the
  partial-update-by-id of the spec: the fields of the update are merged into the record
  with that id, and a store without that id is left as it is.
\<close>

definition update_by_id :: "store \<Rightarrow> string \<Rightarrow> patch \<Rightarrow> store" where
  "update_by_id s i p = (case s i of None \<Rightarrow> s | Some m \<Rightarrow> s(i \<mapsto> merge m p))"

text \<open>
  Modelled from the spec: what \<^verbatim>\<open>useUploadedContent()\<close> of the missing module
  returns, by the two definitions above; the update of the spec's store does not throw.
\<close>

definition UploadedContentContext :: content_hook where
  "UploadedContentContext =
     \<lparr>getStudyMaterialById = get_by_id,
      updateStudyMaterial = (\<lambda>s i p. Inr (update_by_id s i p))\<rparr>"

subsection \<open>Component state and effects\<close>

text \<open>
  The state a handler acts on: the store held by the context, the values of the page's
  \<^verbatim>\<open>useState\<close> hooks, and a log of the gateway and store calls made so far.
  \<^verbatim>\<open>isLoading\<close> and \<^verbatim>\<open>error\<close> are objects keyed by feature name.
\<close>

datatype gateway_fn =
    GenerateExplanation
  | GenerateNotes
  | GeneratePresentationContent
  | GeneratePresentationImages
  | GenerateBlockDiagram
  | GenerateVideoAssets
  | StartOrGetChat
  | SendMessageToChat

datatype effect =
    GatewayCall gateway_fn
  | StoreRead string
  | StoreWrite string patch

record world =
  studyMaterials :: store
  effects :: "effect list"
  material :: "StudyMaterial option"
  isLoading :: "string \<rightharpoonup> bool"
  error :: "string \<rightharpoonup> string option"
  chatInput :: string
  isAwaitingChatResponse :: bool
  useGoogleSearch :: bool
  selectedNoteLength :: NoteLength
  videoGenerationProgress :: string
  isGeneratingPresentation :: bool
  presentationGenProgress :: string
  presentationError :: "string option"
  isGeneratingDiagram :: bool
  diagramError :: "string option"

text \<open>
  A handler is a closure created by one render. It reads the hook values of that render
  (the argument \<open>r\<close> of the handlers below, in particular \<open>material r\<close>) and applies its
  setters and store calls to the live state \<open>w\<close>. An \<^verbatim>\<open>async\<close> handler runs in
  segments separated by its \<^verbatim>\<open>await\<close>s. While it is suspended other tasks of the
  event loop may change the live state: \<open>f\<close> is what they do. They cannot change the
  record of what this invocation has done.
\<close>

definition suspend :: "(world \<Rightarrow> world) \<Rightarrow> world \<Rightarrow> world" where
  "suspend f w = (f w)\<lparr>effects := effects w\<rparr>"

definition call :: "gateway_fn \<Rightarrow> world \<Rightarrow> world" where
  "call g w = w\<lparr>effects := effects w @ [GatewayCall g]\<rparr>"

definition store_write :: "content_hook \<Rightarrow> string \<Rightarrow> patch \<Rightarrow> world \<Rightarrow> thrown option \<times> world" where
  "store_write ctx i p w =
     (let w1 = w\<lparr>effects := effects w @ [StoreWrite i p]\<rparr> in
      case updateStudyMaterial ctx (studyMaterials w) i p of
        Inl e \<Rightarrow> (Some e, w1)
      | Inr s \<Rightarrow> (None, w1\<lparr>studyMaterials := s\<rparr>))"

definition store_read :: "content_hook \<Rightarrow> string \<Rightarrow> world \<Rightarrow> StudyMaterial option \<times> world" where
  "store_read ctx i w =
     (getStudyMaterialById ctx (studyMaterials w) i, w\<lparr>effects := effects w @ [StoreRead i]\<rparr>)"

text \<open>
  A segment either ends the invocation (the promise resolves, or rejects with the
  exception that escaped) or stops at the next \<^verbatim>\<open>await\<close>.
\<close>

datatype step = Finished "thrown option" | Suspended

section \<open>The handlers\<close>

subsection \<open>handleGenerate\<close>

datatype gen_type = Summary | Explanation | Notes

fun type_key :: "gen_type \<Rightarrow> string" where
  "type_key Summary = ''summary''"
| "type_key Explanation = ''explanation''"
| "type_key Notes = ''notes''"

text \<open>The object \<^verbatim>\<open>{ [updateKey]: updateValue }\<close> handed to the store.\<close>

fun generate_patch :: "gen_type \<Rightarrow> StudyMaterial \<Rightarrow> NoteLength \<Rightarrow> string \<Rightarrow> patch" where
  "generate_patch Summary m l result = [Set_aiSummary (Some result)]"
| "generate_patch Explanation m l result = [Set_aiExplanation (Some result)]"
| "generate_patch Notes m l result = [Set_notes (Some ((spread (material_notes m))(l \<mapsto> result)))]"

text \<open>The two setters before \<^verbatim>\<open>try\<close>, and the call \<^verbatim>\<open>generatorFn()\<close>.\<close>

definition handleGenerate_begin :: "gen_type \<Rightarrow> gateway_fn \<Rightarrow> world \<Rightarrow> world" where
  "handleGenerate_begin ty g w =
     call g (w\<lparr>isLoading := (isLoading w)(type_key ty \<mapsto> True),
              error := (error w)(type_key ty \<mapsto> None)\<rparr>)"

definition generate_catch :: "gen_type \<Rightarrow> world \<Rightarrow> world" where
  "generate_catch ty w =
     w\<lparr>error := (error w)(type_key ty \<mapsto>
          Some (''Failed to generate '' @ type_key ty @ ''. Please try again.''))\<rparr>"

text \<open>
  The rest of \<^verbatim>\<open>try\<close> once the promise of \<^verbatim>\<open>generatorFn()\<close> has settled
  (\<open>Inl\<close>: it rejected), then \<^verbatim>\<open>catch\<close> and \<^verbatim>\<open>finally\<close>.
\<close>

definition handleGenerate_finish ::
  "content_hook \<Rightarrow> StudyMaterial \<Rightarrow> NoteLength \<Rightarrow> gen_type \<Rightarrow> thrown + string \<Rightarrow> world
     \<Rightarrow> thrown option \<times> world" where
  "handleGenerate_finish ctx m l ty res w =
     (let w1 = (case res of
                  Inl e \<Rightarrow> generate_catch ty w
                | Inr result \<Rightarrow>
                    (case store_write ctx (material_id m) (generate_patch ty m l result) w of
                       (Some e, w') \<Rightarrow> generate_catch ty w'
                     | (None, w') \<Rightarrow> w'))
      in (None, w1\<lparr>isLoading := (isLoading w1)(type_key ty \<mapsto> False)\<rparr>))"

definition handleGenerate ::
  "content_hook \<Rightarrow> world \<Rightarrow> gen_type \<Rightarrow> gateway_fn \<Rightarrow> thrown + string \<Rightarrow> (world \<Rightarrow> world)
     \<Rightarrow> world \<Rightarrow> thrown option \<times> world" where
  "handleGenerate ctx r ty g res f w =
     (case material r of
        None \<Rightarrow> (None, w)
      | Some m \<Rightarrow>
          if material_id m = [] then (None, w)
          else handleGenerate_finish ctx m (selectedNoteLength r) ty res
                 (suspend f (handleGenerate_begin ty g w)))"

text \<open>\<^verbatim>\<open>material.notes?.[selectedNoteLength]\<close>, as the page reads a note.\<close>

definition noteForLength :: "StudyMaterial option \<Rightarrow> NoteLength \<Rightarrow> string option" where
  "noteForLength mat l = (case mat of None \<Rightarrow> None | Some m \<Rightarrow> spread (material_notes m) l)"

definition handleGenerateNotes ::
  "content_hook \<Rightarrow> world \<Rightarrow> thrown + string \<Rightarrow> (world \<Rightarrow> world) \<Rightarrow> world
     \<Rightarrow> thrown option \<times> world" where
  "handleGenerateNotes ctx r res f w = handleGenerate ctx r Notes GenerateNotes res f w"

subsection \<open>handleSendMessage\<close>

text \<open>
  \<^verbatim>\<open>String.prototype.trim\<close>, on strings whose code units are below 256: the white
  space there is tab, line feed, vertical tab, form feed, carriage return, space and the
  no-break space.
\<close>

definition is_space :: "char \<Rightarrow> bool" where
  "is_space c = (c \<in> set [CHR 0x09, CHR 0x0A, CHR 0x0B, CHR 0x0C, CHR 0x0D, CHR 0x20, CHR 0xA0])"

definition trim :: "string \<Rightarrow> string" where
  "trim s = rev (dropWhile is_space (rev (dropWhile is_space s)))"

text \<open>A number in a template literal.\<close>

fun decimal :: "nat \<Rightarrow> string" where
  "decimal n =
     (if n < 10 then [char_of (48 + n)] else decimal (n div 10) @ [char_of (48 + n mod 10)])"

declare decimal.simps [simp del]

text \<open>
  What \<^verbatim>\<open>Date.now()\<close> and \<^verbatim>\<open>new Date().toISOString()\<close> return: once when the user
  message is built, once for the reply, once for the error message.
\<close>

record clock =
  ms :: nat
  iso :: string

record clocks =
  at_send :: clock
  at_reply :: clock
  at_error :: clock

record reply =
  reply_text :: string
  reply_groundingSources :: "GroundingSource list option"

definition userMessage :: "clock \<Rightarrow> string \<Rightarrow> ChatMessage" where
  "userMessage c textToSend =
     \<lparr>msg_id = ''msg_'' @ decimal (ms c), sender = User, msg_text = textToSend,
      timestamp = iso c, groundingSources = None\<rparr>"

definition aiMessage :: "clock \<Rightarrow> reply \<Rightarrow> ChatMessage" where
  "aiMessage c rp =
     \<lparr>msg_id = ''msg_'' @ decimal (ms c + 1), sender = Ai, msg_text = reply_text rp,
      timestamp = iso c, groundingSources = reply_groundingSources rp\<rparr>"

definition errorMessage :: "clock \<Rightarrow> ChatMessage" where
  "errorMessage c =
     \<lparr>msg_id = ''err_'' @ decimal (ms c), sender = Ai,
      msg_text = ''Sorry, I encountered an error. Please check your connection or API key and try again.'',
      timestamp = iso c, groundingSources = None\<rparr>"

text \<open>\<^verbatim>\<open>currentMaterial?.chatHistory || []\<close>\<close>

definition history_of :: "StudyMaterial option \<Rightarrow> ChatMessage list" where
  "history_of currentMaterial =
     (case currentMaterial of None \<Rightarrow> [] | Some cm \<Rightarrow> or_empty (chatHistory cm))"

text \<open>\<^verbatim>\<open>catch\<close> and \<^verbatim>\<open>finally\<close>.\<close>

definition chat_catch :: "content_hook \<Rightarrow> StudyMaterial \<Rightarrow> clocks \<Rightarrow> world \<Rightarrow> thrown option \<times> world" where
  "chat_catch ctx m cs w =
     (case store_read ctx (material_id m) w of
        (currentMaterial, w1) \<Rightarrow>
          (case store_write ctx (material_id m)
                  [Set_chatHistory (Some
                     (history_of currentMaterial @ [errorMessage (at_error cs)]))] w1 of
             (x, w2) \<Rightarrow> (x, w2\<lparr>isAwaitingChatResponse := False\<rparr>)))"

text \<open>
  From the optimistic store write to the call of \<^verbatim>\<open>sendMessageToChat\<close>.
  \<^verbatim>\<open>startOrGetChat\<close> is called synchronously inside \<^verbatim>\<open>try\<close>; \<open>chat_r\<close> is the
  exception it throws, if any. The system instruction and the replayed history are
  arguments of the gateway and have no effect on the state.
\<close>

definition handleSendMessage_begin ::
  "content_hook \<Rightarrow> StudyMaterial \<Rightarrow> string \<Rightarrow> clocks \<Rightarrow> thrown option \<Rightarrow> world \<Rightarrow> step \<times> world" where
  "handleSendMessage_begin ctx m textToSend cs chat_r w =
     (case store_write ctx (material_id m)
             [Set_chatHistory (Some (or_empty (chatHistory m) @ [userMessage (at_send cs) textToSend]))] w of
        (Some e, w1) \<Rightarrow> (Finished (Some e), w1)
      | (None, w1) \<Rightarrow>
          (let w2 = call StartOrGetChat
                      (w1\<lparr>chatInput := [], isAwaitingChatResponse := True,
                          error := (error w1)(''chat'' \<mapsto> None)\<rparr>)
           in case chat_r of
                Some e \<Rightarrow> (case chat_catch ctx m cs w2 of (x, w3) \<Rightarrow> (Finished x, w3))
              | None \<Rightarrow> (Suspended, call SendMessageToChat w2)))"

definition handleSendMessage_finish ::
  "content_hook \<Rightarrow> StudyMaterial \<Rightarrow> string \<Rightarrow> clocks \<Rightarrow> thrown + reply \<Rightarrow> world
     \<Rightarrow> thrown option \<times> world" where
  "handleSendMessage_finish ctx m textToSend cs send_r w =
     (case send_r of
        Inl e \<Rightarrow> chat_catch ctx m cs w
      | Inr rp \<Rightarrow>
          (case store_write ctx (material_id m)
                  [Set_chatHistory (Some (or_empty (chatHistory m)
                     @ [userMessage (at_send cs) textToSend, aiMessage (at_reply cs) rp]))] w of
             (Some e, w1) \<Rightarrow> chat_catch ctx m cs w1
           | (None, w1) \<Rightarrow> (None, w1\<lparr>isAwaitingChatResponse := False\<rparr>)))"

definition handleSendMessage ::
  "content_hook \<Rightarrow> world \<Rightarrow> clocks \<Rightarrow> string option \<Rightarrow> thrown option \<Rightarrow> thrown + reply
     \<Rightarrow> (world \<Rightarrow> world) \<Rightarrow> world \<Rightarrow> thrown option \<times> world" where
  "handleSendMessage ctx r cs textOverride chat_r send_r f w =
     (let textToSend = trim (case textOverride of None \<Rightarrow> chatInput r | Some t \<Rightarrow> t) in
      case material r of
        None \<Rightarrow> (None, w)
      | Some m \<Rightarrow>
          if textToSend = [] \<or> material_id m = [] then (None, w)
          else (case handleSendMessage_begin ctx m textToSend cs chat_r w of
                  (Finished x, w1) \<Rightarrow> (x, w1)
                | (Suspended, w1) \<Rightarrow>
                    handleSendMessage_finish ctx m textToSend cs send_r (suspend f w1)))"

subsection \<open>handleGenerateFullPresentation\<close>

text \<open>
  The gateway reports progress through a callback while the handler is suspended; each
  report overwrites the progress text.
\<close>

definition presentation_progress :: "string list \<Rightarrow> world \<Rightarrow> world" where
  "presentation_progress ps w =
     fold (\<lambda>progress v. v\<lparr>presentationGenProgress := ''Step 2/2: '' @ progress\<rparr>) ps w"

definition presentation_begin :: "world \<Rightarrow> world" where
  "presentation_begin w =
     call GeneratePresentationContent
       (w\<lparr>isGeneratingPresentation := True, presentationError := None,
          presentationGenProgress := ''Starting presentation generation...'',
          presentationGenProgress := ''Step 1/2: Crafting slide content...''\<rparr>)"

definition presentation_finally :: "world \<Rightarrow> world" where
  "presentation_finally w = w\<lparr>isGeneratingPresentation := False, presentationGenProgress := []\<rparr>"

text \<open>\<^verbatim>\<open>catch\<close> and \<^verbatim>\<open>finally\<close>.\<close>

definition presentation_catch ::
  "content_hook \<Rightarrow> StudyMaterial \<Rightarrow> thrown \<Rightarrow> world \<Rightarrow> thrown option \<times> world" where
  "presentation_catch ctx m err w =
     (case store_write ctx (material_id m) [Set_presentationContent None]
             (w\<lparr>presentationError := Some (or_else (Some (message err)) ''An unknown error occurred.'')\<rparr>) of
        (x, w1) \<Rightarrow> (x, presentation_finally w1))"

text \<open>
  After phase 1 has settled: the check of its result, the store write, and the call of
  phase 2.
\<close>

definition presentation_afterContent ::
  "content_hook \<Rightarrow> StudyMaterial \<Rightarrow> thrown + PresentationContent option \<Rightarrow> world \<Rightarrow> step \<times> world" where
  "presentation_afterContent ctx m r1 w =
     (case r1 of
        Inl err \<Rightarrow> (case presentation_catch ctx m err w of (x, w1) \<Rightarrow> (Finished x, w1))
      | Inr None \<Rightarrow>
          (case presentation_catch ctx m (Error ''The AI failed to generate presentation content.'') w of
             (x, w1) \<Rightarrow> (Finished x, w1))
      | Inr (Some content) \<Rightarrow>
          (case store_write ctx (material_id m) [Set_presentationContent (Some content)] w of
             (Some err, w1) \<Rightarrow> (case presentation_catch ctx m err w1 of (x, w2) \<Rightarrow> (Finished x, w2))
           | (None, w1) \<Rightarrow> (Suspended, call GeneratePresentationImages w1)))"

text \<open>The test \<^verbatim>\<open>s => !s.imageUrl\<close>.\<close>

definition no_image :: "SlideContent \<Rightarrow> bool" where
  "no_image s = (\<not> truthy (slide_imageUrl s))"

definition presentation_afterImages ::
  "content_hook \<Rightarrow> StudyMaterial \<Rightarrow> thrown + PresentationContent option \<Rightarrow> world
     \<Rightarrow> thrown option \<times> world" where
  "presentation_afterImages ctx m r2 w =
     (case r2 of
        Inl err \<Rightarrow> presentation_catch ctx m err w
      | Inr None \<Rightarrow> presentation_catch ctx m (Error ''Failed to generate presentation images.'') w
      | Inr (Some contentWithImages) \<Rightarrow>
          (case store_write ctx (material_id m) [Set_presentationContent (Some contentWithImages)] w of
             (Some err, w1) \<Rightarrow> presentation_catch ctx m err w1
           | (None, w1) \<Rightarrow>
               (None, presentation_finally
                  (if list_ex no_image (slides contentWithImages)
                   then w1\<lparr>presentationError := Some ''Some slide visuals could not be generated.''\<rparr>
                   else w1))))"

definition handleGenerateFullPresentation ::
  "content_hook \<Rightarrow> world \<Rightarrow> thrown + PresentationContent option \<Rightarrow> (world \<Rightarrow> world)
     \<Rightarrow> thrown + PresentationContent option \<Rightarrow> string list \<Rightarrow> (world \<Rightarrow> world)
     \<Rightarrow> world \<Rightarrow> thrown option \<times> world" where
  "handleGenerateFullPresentation ctx r r1 f1 r2 ps f2 w =
     (case material r of
        None \<Rightarrow>
          (None, w\<lparr>presentationError :=
                     Some ''An explanation must be generated first to create a presentation.''\<rparr>)
      | Some m \<Rightarrow>
          if material_id m = [] \<or> \<not> truthy (aiExplanation m)
          then (None, w\<lparr>presentationError :=
                          Some ''An explanation must be generated first to create a presentation.''\<rparr>)
          else (case presentation_afterContent ctx m r1 (suspend f1 (presentation_begin w)) of
                  (Finished x, w1) \<Rightarrow> (x, w1)
                | (Suspended, w1) \<Rightarrow>
                    presentation_afterImages ctx m r2 (presentation_progress ps (suspend f2 w1))))"

subsection \<open>handleGenerateBlockDiagram\<close>

definition diagram_begin :: "world \<Rightarrow> world" where
  "diagram_begin w = call GenerateBlockDiagram (w\<lparr>isGeneratingDiagram := True, diagramError := None\<rparr>)"

definition diagram_catch ::
  "content_hook \<Rightarrow> StudyMaterial \<Rightarrow> thrown \<Rightarrow> world \<Rightarrow> thrown option \<times> world" where
  "diagram_catch ctx m err w =
     store_write ctx (material_id m) [Set_blockDiagramMermaid (Some ''error'')]
       (w\<lparr>diagramError := Some (or_else (Some (message err)) ''Failed to generate diagram.'')\<rparr>)"

definition diagram_finish ::
  "content_hook \<Rightarrow> StudyMaterial \<Rightarrow> thrown + string option \<Rightarrow> world \<Rightarrow> thrown option \<times> world" where
  "diagram_finish ctx m res w =
     (case (case res of
              Inl err \<Rightarrow> diagram_catch ctx m err w
            | Inr mermaidCode \<Rightarrow>
                (case store_write ctx (material_id m)
                        [Set_blockDiagramMermaid (Some (or_else mermaidCode ''error''))] w of
                   (Some err, w1) \<Rightarrow> diagram_catch ctx m err w1
                 | (None, w1) \<Rightarrow> (None, w1))) of
        (x, w2) \<Rightarrow> (x, w2\<lparr>isGeneratingDiagram := False\<rparr>))"

definition handleGenerateBlockDiagram ::
  "content_hook \<Rightarrow> world \<Rightarrow> thrown + string option \<Rightarrow> (world \<Rightarrow> world) \<Rightarrow> world
     \<Rightarrow> thrown option \<times> world" where
  "handleGenerateBlockDiagram ctx r res f w =
     (case material r of
        None \<Rightarrow> (None, w\<lparr>diagramError := Some ''Please generate an explanation first.''\<rparr>)
      | Some m \<Rightarrow>
          if \<not> truthy (aiExplanation m)
          then (None, w\<lparr>diagramError := Some ''Please generate an explanation first.''\<rparr>)
          else diagram_finish ctx m res (suspend f (diagram_begin w)))"

subsection \<open>handleGenerateVideo\<close>

definition video_progress :: "string list \<Rightarrow> world \<Rightarrow> world" where
  "video_progress ps w = fold (\<lambda>progress v. v\<lparr>videoGenerationProgress := progress\<rparr>) ps w"

definition video_begin :: "world \<Rightarrow> world" where
  "video_begin w =
     call GenerateVideoAssets
       (w\<lparr>isLoading := (isLoading w)(''video'' \<mapsto> True),
          error := (error w)(''video'' \<mapsto> None),
          videoGenerationProgress := ''Starting video generation...''\<rparr>)"

definition video_catch :: "thrown \<Rightarrow> world \<Rightarrow> world" where
  "video_catch err w =
     w\<lparr>error := (error w)(''video'' \<mapsto>
          Some (or_else (Some (message err)) ''An unknown error occurred.''))\<rparr>"

definition video_finish ::
  "content_hook \<Rightarrow> StudyMaterial \<Rightarrow> thrown + VideoScene list option \<Rightarrow> world
     \<Rightarrow> thrown option \<times> world" where
  "video_finish ctx m res w =
     (let w1 = (case res of
                  Inl err \<Rightarrow> video_catch err w
                | Inr scenes \<Rightarrow>
                    (case store_write ctx (material_id m) [Set_videoScenes (Some (or_empty scenes))] w of
                       (Some err, w') \<Rightarrow> video_catch err w'
                     | (None, w') \<Rightarrow> w'))
      in (None, w1\<lparr>isLoading := (isLoading w1)(''video'' \<mapsto> False), videoGenerationProgress := []\<rparr>))"

definition handleGenerateVideo ::
  "content_hook \<Rightarrow> world \<Rightarrow> thrown + VideoScene list option \<Rightarrow> string list \<Rightarrow> (world \<Rightarrow> world)
     \<Rightarrow> world \<Rightarrow> thrown option \<times> world" where
  "handleGenerateVideo ctx r res ps f w =
     (case material r of
        None \<Rightarrow> (None, w\<lparr>error := (error w)(''video'' \<mapsto> Some ''Please generate an explanation first.'')\<rparr>)
      | Some m \<Rightarrow>
          if \<not> truthy (aiExplanation m)
          then (None, w\<lparr>error := (error w)(''video'' \<mapsto> Some ''Please generate an explanation first.'')\<rparr>)
          else video_finish ctx m res (video_progress ps (suspend f (video_begin w))))"

section \<open>A concrete page\<close>

text \<open>
  One material with a two-message chat history, a page that has it loaded, and the
  collaborators of a run: clock readings, a gateway reply, another task that appends a
  message to the stored history while a handler is suspended, another that stores a note
  of medium length, and a store whose update throws. \<open>page_0\<close> is the same page before
  any explanation has been generated.
\<close>

definition message_A :: ChatMessage where
  "message_A = \<lparr>msg_id = ''msg_1'', sender = User, msg_text = ''What is mitosis?'',
                 timestamp = ''t1'', groundingSources = None\<rparr>"

definition message_B :: ChatMessage where
  "message_B = \<lparr>msg_id = ''msg_2'', sender = Ai, msg_text = ''Cell division.'',
                 timestamp = ''t2'', groundingSources = None\<rparr>"

definition message_X :: ChatMessage where
  "message_X = \<lparr>msg_id = ''msg_9'', sender = User, msg_text = ''And meiosis?'',
                 timestamp = ''t9'', groundingSources = None\<rparr>"

definition slide_without_image :: SlideContent where
  "slide_without_image = \<lparr>slide_title = ''Phases'', slide_content = [''Prophase'', ''Metaphase''],
                           slide_imagePrompt = ''a dividing cell'', slide_imageUrl = None\<rparr>"

definition slide_with_image :: SlideContent where
  "slide_with_image = \<lparr>slide_title = ''Result'', slide_content = [''Two cells''],
                        slide_imagePrompt = ''two cells'', slide_imageUrl = Some ''data:image/png;base64,AA''\<rparr>"

definition deck :: "SlideContent list \<Rightarrow> PresentationContent" where
  "deck ss = \<lparr>presentation_title = ''Mitosis'', slides = ss\<rparr>"

definition scene_1 :: VideoScene where
  "scene_1 = \<lparr>script = ''A cell prepares to divide.'', imagePrompt = ''a cell'', imageUrl = None\<rparr>"

definition material_1 :: StudyMaterial where
  "material_1 =
     \<lparr>material_id = ''m1'', title = ''Cells'', subject = ''Biology'', topic = ''Mitosis'',
      difficulty = ''Easy'', material_type = ''text'', extractedText = Some ''Cells divide.'',
      aiSummary = None, aiExplanation = Some ''A cell copies itself.'',
      material_notes = Some [SHORT \<mapsto> ''short notes''], presentationContent = None,
      blockDiagramMermaid = None, videoScenes = Some [scene_1],
      chatHistory = Some [message_A, message_B]\<rparr>"

definition page_1 :: world where
  "page_1 =
     \<lparr>studyMaterials = [''m1'' \<mapsto> material_1], effects = [], material = Some material_1,
      isLoading = Map.empty, error = Map.empty, chatInput = '' Why? '',
      isAwaitingChatResponse = False, useGoogleSearch = False, selectedNoteLength = DETAILED,
      videoGenerationProgress = [], isGeneratingPresentation = False,
      presentationGenProgress = [], presentationError = None, isGeneratingDiagram = False,
      diagramError = None\<rparr>"

definition clocks_1 :: clocks where
  "clocks_1 = \<lparr>at_send = \<lparr>ms = 3, iso = ''t3''\<rparr>, at_reply = \<lparr>ms = 4, iso = ''t4''\<rparr>,
                at_error = \<lparr>ms = 6, iso = ''t6''\<rparr>\<rparr>"

definition reply_1 :: reply where
  "reply_1 = \<lparr>reply_text = ''Because cells wear out.'', reply_groundingSources = None\<rparr>"

definition other_task_appends_X :: "world \<Rightarrow> world" where
  "other_task_appends_X v =
     v\<lparr>studyMaterials := update_by_id (studyMaterials v) ''m1''
          [Set_chatHistory (Some (history_of (studyMaterials v ''m1'') @ [message_X]))]\<rparr>"

definition failing_store :: content_hook where
  "failing_store =
     \<lparr>getStudyMaterialById = get_by_id,
      updateStudyMaterial = (\<lambda>s i p. Inl (Error ''QuotaExceededError''))\<rparr>"

definition scene_2 :: VideoScene where
  "scene_2 = \<lparr>script = ''Two cells emerge.'', imagePrompt = ''two cells'',
               imageUrl = Some ''data:image/png;base64,BB''\<rparr>"

definition material_0 :: StudyMaterial where
  "material_0 = material_1\<lparr>aiExplanation := None\<rparr>"

definition page_0 :: world where
  "page_0 = page_1\<lparr>studyMaterials := [''m1'' \<mapsto> material_0], material := Some material_0\<rparr>"

definition other_task_stores_MEDIUM :: "world \<Rightarrow> world" where
  "other_task_stores_MEDIUM v =
     v\<lparr>studyMaterials := update_by_id (studyMaterials v) ''m1''
          [Set_notes (Some
             ((case studyMaterials v ''m1'' of
                 None \<Rightarrow> Map.empty
               | Some cm \<Rightarrow> spread (material_notes cm))(MEDIUM \<mapsto> ''medium notes'')))]\<rparr>"

section \<open>Properties\<close>

text \<open>
  The theorems below are about the handlers as defined above. Where a theorem speaks of
  what ends up in the store it is stated for \<open>UploadedContentContext\<close>, the store as the
  spec describes it; where it is stated for an arbitrary \<open>ctx\<close> it holds however the store
  operations behave, also when an update throws. The state passed to \<open>f\<close> is the one in
  which the handler is suspended at its gateway call, and \<open>f\<close> of it is the state in which
  the handler resumes.
\<close>

subsection \<open>The handlers on the modelled store\<close>

lemma store_write_spec:
  "store_write UploadedContentContext i p w =
     (None, w\<lparr>effects := effects w @ [StoreWrite i p],
               studyMaterials := update_by_id (studyMaterials w) i p\<rparr>)"
  by (simp add: store_write_def UploadedContentContext_def)

lemma store_read_spec:
  "store_read UploadedContentContext i w =
     (studyMaterials w i, w\<lparr>effects := effects w @ [StoreRead i]\<rparr>)"
  by (simp add: store_read_def UploadedContentContext_def get_by_id_def)

lemma update_by_id_at:
  "update_by_id s i p i = map_option (\<lambda>m. merge m p) (s i)"
  by (simp add: update_by_id_def split: option.splits)

lemma or_else_nonempty: "d \<noteq> [] \<Longrightarrow> or_else s d \<noteq> []"
  by (simp add: or_else_def split: option.splits)

lemma presentation_progress_eq:
  "presentation_progress ps w =
     (if ps = [] then w else w\<lparr>presentationGenProgress := ''Step 2/2: '' @ last ps\<rparr>)"
proof (induction ps arbitrary: w)
  case Nil
  show ?case by (simp add: presentation_progress_def)
next
  case (Cons p ps)
  have "presentation_progress (p # ps) w =
          presentation_progress ps (w\<lparr>presentationGenProgress := ''Step 2/2: '' @ p\<rparr>)"
    by (simp add: presentation_progress_def)
  then show ?case by (simp add: Cons.IH)
qed

lemma video_progress_eq:
  "video_progress ps w = (if ps = [] then w else w\<lparr>videoGenerationProgress := last ps\<rparr>)"
proof (induction ps arbitrary: w)
  case Nil
  show ?case by (simp add: video_progress_def)
next
  case (Cons p ps)
  have "video_progress (p # ps) w = video_progress ps (w\<lparr>videoGenerationProgress := p\<rparr>)"
    by (simp add: video_progress_def)
  then show ?case by (simp add: Cons.IH)
qed

lemma page_1_loaded:
  "material page_1 = Some material_1" "material_id material_1 = ''m1''"
  "truthy (aiExplanation material_1)" "studyMaterials page_1 ''m1'' = Some material_1"
  by (simp_all add: page_1_def material_1_def truthy_def)

lemma chat_begin_spec:
  "handleSendMessage_begin UploadedContentContext m textToSend cs None w =
     (Suspended,
      w\<lparr>effects := effects w @
           [StoreWrite (material_id m)
              [Set_chatHistory (Some (or_empty (chatHistory m) @ [userMessage (at_send cs) textToSend]))],
            GatewayCall StartOrGetChat, GatewayCall SendMessageToChat],
         studyMaterials := update_by_id (studyMaterials w) (material_id m)
              [Set_chatHistory (Some (or_empty (chatHistory m) @ [userMessage (at_send cs) textToSend]))],
         chatInput := [], isAwaitingChatResponse := True,
         error := (error w)(''chat'' \<mapsto> None)\<rparr>)"
  by (simp add: handleSendMessage_begin_def store_write_spec call_def)

lemma chat_begin_failure_spec:
  "handleSendMessage_begin UploadedContentContext m textToSend cs (Some e) w =
     (Finished None,
      w\<lparr>effects := effects w @
           [StoreWrite (material_id m)
              [Set_chatHistory (Some (or_empty (chatHistory m) @ [userMessage (at_send cs) textToSend]))],
            GatewayCall StartOrGetChat,
            StoreRead (material_id m),
            StoreWrite (material_id m)
              [Set_chatHistory (Some
                 (history_of (update_by_id (studyMaterials w) (material_id m)
                    [Set_chatHistory (Some (or_empty (chatHistory m) @ [userMessage (at_send cs) textToSend]))]
                    (material_id m))
                  @ [errorMessage (at_error cs)]))]],
         studyMaterials :=
           update_by_id
             (update_by_id (studyMaterials w) (material_id m)
                [Set_chatHistory (Some (or_empty (chatHistory m) @ [userMessage (at_send cs) textToSend]))])
             (material_id m)
             [Set_chatHistory (Some
                 (history_of (update_by_id (studyMaterials w) (material_id m)
                    [Set_chatHistory (Some (or_empty (chatHistory m) @ [userMessage (at_send cs) textToSend]))]
                    (material_id m))
                  @ [errorMessage (at_error cs)]))],
         chatInput := [], isAwaitingChatResponse := False,
         error := (error w)(''chat'' \<mapsto> None)\<rparr>)"
  by (simp add: handleSendMessage_begin_def chat_catch_def store_write_spec store_read_spec call_def)

lemma chat_finish_success_spec:
  "handleSendMessage_finish UploadedContentContext m textToSend cs (Inr rp) v =
     (None,
      v\<lparr>effects := effects v @
           [StoreWrite (material_id m)
              [Set_chatHistory (Some (or_empty (chatHistory m)
                 @ [userMessage (at_send cs) textToSend, aiMessage (at_reply cs) rp]))]],
         studyMaterials := update_by_id (studyMaterials v) (material_id m)
              [Set_chatHistory (Some (or_empty (chatHistory m)
                 @ [userMessage (at_send cs) textToSend, aiMessage (at_reply cs) rp]))],
         isAwaitingChatResponse := False\<rparr>)"
  by (simp add: handleSendMessage_finish_def store_write_spec)

lemma chat_finish_failure_spec:
  "handleSendMessage_finish UploadedContentContext m textToSend cs (Inl e) v =
     (None,
      v\<lparr>effects := effects v @
           [StoreRead (material_id m),
            StoreWrite (material_id m)
              [Set_chatHistory (Some (history_of (studyMaterials v (material_id m))
                 @ [errorMessage (at_error cs)]))]],
         studyMaterials := update_by_id (studyMaterials v) (material_id m)
              [Set_chatHistory (Some (history_of (studyMaterials v (material_id m))
                 @ [errorMessage (at_error cs)]))],
         isAwaitingChatResponse := False\<rparr>)"
  by (simp add: handleSendMessage_finish_def chat_catch_def store_write_spec store_read_spec)

lemma presentation_catch_spec:
  "presentation_catch UploadedContentContext m err v =
     (None,
      v\<lparr>presentationError := Some (or_else (Some (message err)) ''An unknown error occurred.''),
         effects := effects v @ [StoreWrite (material_id m) [Set_presentationContent None]],
         studyMaterials := update_by_id (studyMaterials v) (material_id m) [Set_presentationContent None],
         isGeneratingPresentation := False, presentationGenProgress := []\<rparr>)"
  by (simp add: presentation_catch_def store_write_spec presentation_finally_def)

lemma presentation_afterContent_spec:
  "presentation_afterContent UploadedContentContext m (Inr (Some content)) v =
     (Suspended,
      v\<lparr>effects := effects v @
           [StoreWrite (material_id m) [Set_presentationContent (Some content)],
            GatewayCall GeneratePresentationImages],
         studyMaterials := update_by_id (studyMaterials v) (material_id m)
           [Set_presentationContent (Some content)]\<rparr>)"
  by (simp add: presentation_afterContent_def store_write_spec call_def)

lemma presentation_afterImages_spec:
  "presentation_afterImages UploadedContentContext m (Inr (Some contentWithImages)) v =
     (None,
      v\<lparr>effects := effects v @
           [StoreWrite (material_id m) [Set_presentationContent (Some contentWithImages)]],
         studyMaterials := update_by_id (studyMaterials v) (material_id m)
           [Set_presentationContent (Some contentWithImages)],
         presentationError :=
           (if list_ex no_image (slides contentWithImages)
            then Some ''Some slide visuals could not be generated.'' else presentationError v),
         isGeneratingPresentation := False, presentationGenProgress := []\<rparr>)"
  by (simp add: presentation_afterImages_def store_write_spec presentation_finally_def)

lemma presentation_two_phases:
  assumes "material r = Some m" and "material_id m \<noteq> []" and "truthy (aiExplanation m)"
  shows "handleGenerateFullPresentation UploadedContentContext r (Inr (Some content)) f1 r2 ps f2 w =
           presentation_afterImages UploadedContentContext m r2
             (presentation_progress ps (suspend f2
                (snd (presentation_afterContent UploadedContentContext m (Inr (Some content))
                        (suspend f1 (presentation_begin w))))))"
  using assms by (simp add: handleGenerateFullPresentation_def presentation_afterContent_spec)

lemma generate_finish_spec:
  "handleGenerate_finish UploadedContentContext m l ty (Inr result) v =
     (None,
      v\<lparr>effects := effects v @ [StoreWrite (material_id m) (generate_patch ty m l result)],
         studyMaterials := update_by_id (studyMaterials v) (material_id m) (generate_patch ty m l result),
         isLoading := (isLoading v)(type_key ty \<mapsto> False)\<rparr>)"
  by (simp add: handleGenerate_finish_def store_write_spec)

lemma video_finish_spec:
  "video_finish UploadedContentContext m (Inr scenes) v =
     (None,
      v\<lparr>effects := effects v @ [StoreWrite (material_id m) [Set_videoScenes (Some (or_empty scenes))]],
         studyMaterials := update_by_id (studyMaterials v) (material_id m)
           [Set_videoScenes (Some (or_empty scenes))],
         isLoading := (isLoading v)(''video'' \<mapsto> False), videoGenerationProgress := []\<rparr>)"
  by (simp add: video_finish_def store_write_spec)

subsection \<open>Chat\<close>

text \<open>
  Claim C1, as the code has it. A message is sent while the page shows a material whose
  chat history is \<open>h\<close> (\<open>[A, B]\<close> in the claim), and the material is in the store.
  \<^item> If the gateway replies, the final write sets the history to \<open>h\<close> followed by the user
    message and the reply. The base of this write is the history the handler captured when
    it was created, extended by the user message it built itself; the store is not read,
    so the result is the same whatever other tasks did to the stored history meanwhile.
  \<^item> If \<^verbatim>\<open>sendMessageToChat\<close> fails, the final write appends one error message from
    the assistant to the history read from the store at that moment (\<open>history_of (Some mc)\<close>).
    When no other task has touched the store, that history is \<open>h\<close> followed by the user
    message, so the result is \<open>h\<close>, the user message, the error message.
  \<^item> If \<^verbatim>\<open>startOrGetChat\<close> throws, the handler never suspends and the result is again
    \<open>h\<close>, the user message, the error message.
  In each case the user message appears once.
\<close>

theorem chat_history_after_send:
  assumes mat: "material r = Some m" "material_id m \<noteq> []"
      and nonempty: "trim (case textOverride of None \<Rightarrow> chatInput r | Some t \<Rightarrow> t) = textToSend"
        "textToSend \<noteq> []"
      and stored: "studyMaterials w (material_id m) = Some m0"
      and at_end:
        "studyMaterials (f (snd (handleSendMessage_begin UploadedContentContext m textToSend cs None w)))
           (material_id m) = Some mc"
  shows "history_of (studyMaterials
           (snd (handleSendMessage UploadedContentContext r cs textOverride None (Inr rp) f w))
           (material_id m))
         = or_empty (chatHistory m) @ [userMessage (at_send cs) textToSend, aiMessage (at_reply cs) rp]
       \<and> history_of (studyMaterials
           (snd (handleSendMessage UploadedContentContext r cs textOverride None (Inl e) f w))
           (material_id m))
         = history_of (Some mc) @ [errorMessage (at_error cs)]
       \<and> (f = (\<lambda>v. v) \<longrightarrow>
            history_of (Some mc) = or_empty (chatHistory m) @ [userMessage (at_send cs) textToSend])
       \<and> history_of (studyMaterials
           (snd (handleSendMessage UploadedContentContext r cs textOverride (Some e) send_r f w))
           (material_id m))
         = or_empty (chatHistory m) @ [userMessage (at_send cs) textToSend, errorMessage (at_error cs)]"
proof -
  let ?w1 = "snd (handleSendMessage_begin UploadedContentContext m textToSend cs None w)"
  have store: "studyMaterials (suspend f ?w1) (material_id m) = Some mc"
    using at_end by (simp add: suspend_def)
  have ok: "handleSendMessage UploadedContentContext r cs textOverride None res f w =
              handleSendMessage_finish UploadedContentContext m textToSend cs res (suspend f ?w1)" for res
    using mat nonempty by (simp add: handleSendMessage_def Let_def chat_begin_spec)
  have a: "history_of (studyMaterials
             (snd (handleSendMessage UploadedContentContext r cs textOverride None (Inr rp) f w))
             (material_id m))
           = or_empty (chatHistory m) @ [userMessage (at_send cs) textToSend, aiMessage (at_reply cs) rp]"
    using store
    by (simp add: ok chat_finish_success_spec update_by_id_at history_of_def merge_def or_empty_def)
  have b: "history_of (studyMaterials
             (snd (handleSendMessage UploadedContentContext r cs textOverride None (Inl e) f w))
             (material_id m))
           = history_of (Some mc) @ [errorMessage (at_error cs)]"
    using store
    by (simp add: ok chat_finish_failure_spec update_by_id_at history_of_def merge_def or_empty_def)
  have c: "history_of (Some mc) = or_empty (chatHistory m) @ [userMessage (at_send cs) textToSend]"
    if "f = (\<lambda>v. v)"
    using at_end that
    by (auto simp: chat_begin_spec update_by_id_at history_of_def merge_def or_empty_def)
  have d: "history_of (studyMaterials
             (snd (handleSendMessage UploadedContentContext r cs textOverride (Some e) send_r f w))
             (material_id m))
           = or_empty (chatHistory m) @ [userMessage (at_send cs) textToSend, errorMessage (at_error cs)]"
    using mat nonempty stored
    by (simp add: handleSendMessage_def Let_def chat_begin_failure_spec update_by_id_at
          history_of_def merge_def or_empty_def)
  from a b c d show ?thesis by blast
qed

text \<open>
  The page \<open>page_1\<close> with history \<open>[A, B]\<close> and the input \<^verbatim>\<open>" Why? "\<close>, no other task
  running: the history becomes \<open>[A, B, user, reply]\<close> on success and
  \<open>[A, B, user, error]\<close> on failure.
\<close>

theorem chat_history_after_send_witness:
  "history_of (studyMaterials
     (snd (handleSendMessage UploadedContentContext page_1 clocks_1 None None (Inr reply_1)
             (\<lambda>v. v) page_1)) ''m1'')
   = [message_A, message_B, userMessage (at_send clocks_1) ''Why?'', aiMessage (at_reply clocks_1) reply_1]
   \<and> history_of (studyMaterials
     (snd (handleSendMessage UploadedContentContext page_1 clocks_1 None None
             (Inl (Error ''Network error'')) (\<lambda>v. v) page_1)) ''m1'')
   = [message_A, message_B, userMessage (at_send clocks_1) ''Why?'', errorMessage (at_error clocks_1)]"
proof -
  have loaded: "material page_1 = Some material_1"
    by (simp add: page_1_def)
  have ident: "material_id material_1 \<noteq> []"
    by (simp add: material_1_def)
  have trimmed: "trim (case None of None \<Rightarrow> chatInput page_1 | Some t \<Rightarrow> t) = ''Why?''"
    by (simp add: page_1_def trim_def is_space_def)
  have nonempty: "''Why?'' \<noteq> []"
    by simp
  have synced: "studyMaterials page_1 (material_id material_1) = Some material_1"
    by (simp add: page_1_def material_1_def)
  have stored:
    "studyMaterials ((\<lambda>v. v) (snd (handleSendMessage_begin UploadedContentContext material_1 ''Why?''
        clocks_1 None page_1))) (material_id material_1)
     = Some (material_1\<lparr>chatHistory :=
         Some [message_A, message_B, userMessage (at_send clocks_1) ''Why?'']\<rparr>)"
    by (simp add: chat_begin_spec update_by_id_at merge_def or_empty_def page_1_def material_1_def)
  show ?thesis
    using chat_history_after_send [where f = "\<lambda>v. v" and rp = reply_1
        and e = "Error ''Network error''", OF loaded ident trimmed nonempty synced stored]
    by (simp add: history_of_def or_empty_def material_1_def)
qed

text \<open>
  The claim as stated asks that also on success the final write is based on the history
  read from the store at completion time. It is not: while the handler waits for the
  reply another task appends \<open>message_X\<close> to the stored history, which is then
  \<open>[A, B, user, X]\<close>; the final write stores \<open>[A, B, user, reply]\<close>, which is not the
  stored history with the reply appended, and \<open>message_X\<close> is gone.
\<close>

theorem chat_success_ignores_store_counterexample:
  "history_of (studyMaterials
     (suspend other_task_appends_X
        (snd (handleSendMessage_begin UploadedContentContext material_1 ''Why?'' clocks_1 None page_1)))
     ''m1'')
   = [message_A, message_B, userMessage (at_send clocks_1) ''Why?'', message_X]
   \<and> history_of (studyMaterials
     (snd (handleSendMessage UploadedContentContext page_1 clocks_1 None None (Inr reply_1)
             other_task_appends_X page_1)) ''m1'')
   = [message_A, message_B, userMessage (at_send clocks_1) ''Why?'', aiMessage (at_reply clocks_1) reply_1]
   \<and> history_of (studyMaterials
     (snd (handleSendMessage UploadedContentContext page_1 clocks_1 None None (Inr reply_1)
             other_task_appends_X page_1)) ''m1'')
   \<noteq> history_of (studyMaterials
     (suspend other_task_appends_X
        (snd (handleSendMessage_begin UploadedContentContext material_1 ''Why?'' clocks_1 None page_1)))
     ''m1'') @ [aiMessage (at_reply clocks_1) reply_1]"
proof -
  have trimmed: "trim (chatInput page_1) = ''Why?''"
    by (simp add: page_1_def trim_def is_space_def)
  have at_reply:
    "history_of (studyMaterials
       (suspend other_task_appends_X
          (snd (handleSendMessage_begin UploadedContentContext material_1 ''Why?'' clocks_1 None page_1)))
       ''m1'')
     = [message_A, message_B, userMessage (at_send clocks_1) ''Why?'', message_X]"
    by (simp add: chat_begin_spec suspend_def other_task_appends_X_def update_by_id_at
          update_by_id_def merge_def history_of_def or_empty_def page_1_def material_1_def)
  have final:
    "history_of (studyMaterials
       (snd (handleSendMessage UploadedContentContext page_1 clocks_1 None None (Inr reply_1)
               other_task_appends_X page_1)) ''m1'')
     = [message_A, message_B, userMessage (at_send clocks_1) ''Why?'', aiMessage (at_reply clocks_1) reply_1]"
    using trimmed
    by (simp add: handleSendMessage_def Let_def chat_begin_spec chat_finish_success_spec suspend_def
          other_task_appends_X_def update_by_id_def merge_def history_of_def or_empty_def
          page_1_def material_1_def)
  show ?thesis
    unfolding at_reply final by simp
qed


text \<open>
  Claim C9. Sending a chat message whose text is empty after trimming, or sending when no
  material is loaded, does nothing at all: the handler returns with the state exactly as
  it was. So no gateway call and no store write is made (the log of effects is the same),
  the chat history in the store is the same, and the awaiting-response flag and the chat
  error are untouched. This holds whatever the store operations and the gateway would
  have done.
\<close>

theorem send_empty_is_noop:
  assumes "trim (case textOverride of None \<Rightarrow> chatInput r | Some t \<Rightarrow> t) = [] \<or> material r = None"
  shows "handleSendMessage ctx r cs textOverride chat_r send_r f w = (None, w)"
  using assms by (auto simp: handleSendMessage_def Let_def split: option.splits)

theorem send_empty_is_noop_witness:
  "trim (case Some ''  '' of None \<Rightarrow> chatInput page_1 | Some t \<Rightarrow> t) = []
   \<and> handleSendMessage UploadedContentContext page_1 clocks_1 (Some ''  '') None (Inr reply_1)
        other_task_appends_X page_1 = (None, page_1)
   \<and> material (page_1\<lparr>material := None\<rparr>) = None
   \<and> handleSendMessage UploadedContentContext (page_1\<lparr>material := None\<rparr>) clocks_1 None None
        (Inr reply_1) other_task_appends_X page_1 = (None, page_1)"
proof -
  have blank: "trim (case Some ''  '' of None \<Rightarrow> chatInput page_1 | Some t \<Rightarrow> t) = []"
    by (simp add: trim_def is_space_def)
  have unloaded: "material (page_1\<lparr>material := None\<rparr>) = None"
    by simp
  show ?thesis
    using blank unloaded
      send_empty_is_noop [where textOverride = "Some ''  ''" and r = page_1, OF disjI1, OF blank]
      send_empty_is_noop [where textOverride = None and r = "page_1\<lparr>material := None\<rparr>",
        OF disjI2, OF unloaded]
    by simp
qed

subsection \<open>Presentation\<close>

text \<open>
  Claim C2, as the code has it. Phase 1 returned slide content and the image phase
  returned \<open>contentWithImages\<close>. Then the material's presentation content ends as
  \<open>contentWithImages\<close>, exactly as the gateway returned it (so a slide whose image failed has
  no image URL), and when at least one slide has no image URL the warning
  \<^verbatim>\<open>Some slide visuals could not be generated.\<close> is the presentation error. This is
  so whether some or all of the slides have no image: the content is kept in both cases.
  The content ends absent when the image phase returns nothing (with the error
  \<^verbatim>\<open>Failed to generate presentation images.\<close>) or throws.
\<close>

theorem presentation_images_returned:
  assumes "material r = Some m" and "material_id m \<noteq> []" and "truthy (aiExplanation m)"
      and "handleGenerateFullPresentation UploadedContentContext r (Inr (Some content)) f1
             (Inr (Some contentWithImages)) ps f2 w = (x, w')"
      and "studyMaterials w' (material_id m) = Some m'"
      and "handleGenerateFullPresentation UploadedContentContext r (Inr (Some content)) f1
             (Inr None) ps f2 w = (y, v')"
      and "studyMaterials v' (material_id m) = Some n'"
  shows "presentationContent m' = Some contentWithImages
       \<and> (list_ex no_image (slides contentWithImages) \<longrightarrow>
            presentationError w' = Some ''Some slide visuals could not be generated.'')
       \<and> presentationContent n' = None
       \<and> presentationError v' = Some ''Failed to generate presentation images.''"
proof -
  obtain v where run:
    "presentation_afterImages UploadedContentContext m (Inr (Some contentWithImages)) v = (x, w')"
    and none: "presentation_afterImages UploadedContentContext m (Inr None) v = (y, v')"
    using assms(4,6) presentation_two_phases [OF assms(1-3)] by simp
  from run have w': "w' = snd (presentation_afterImages UploadedContentContext m (Inr (Some contentWithImages)) v)"
    by simp
  from none have v': "v' = snd (presentation_catch UploadedContentContext m
                                  (Error ''Failed to generate presentation images.'') v)"
    by (simp add: presentation_afterImages_def)
  have "presentationContent m' = Some contentWithImages"
    using assms(5) unfolding w'
    by (auto simp: presentation_afterImages_spec update_by_id_at merge_def)
  moreover have "list_ex no_image (slides contentWithImages) \<longrightarrow>
      presentationError w' = Some ''Some slide visuals could not be generated.''"
    unfolding w' by (simp add: presentation_afterImages_spec)
  moreover have "presentationContent n' = None"
    using assms(7) unfolding v'
    by (auto simp: presentation_catch_spec update_by_id_at merge_def)
  moreover have "presentationError v' = Some ''Failed to generate presentation images.''"
    unfolding v' by (simp add: presentation_catch_spec or_else_def)
  ultimately show ?thesis by simp
qed

text \<open>
  One of two slides has no image: the content is kept and the warning is shown.
\<close>

theorem presentation_images_returned_witness:
  "map_option presentationContent (studyMaterials
     (snd (handleGenerateFullPresentation UploadedContentContext page_1
             (Inr (Some (deck [slide_without_image, slide_without_image]))) id
             (Inr (Some (deck [slide_without_image, slide_with_image]))) [''Slide 1'', ''Slide 2''] id
             page_1)) ''m1'')
     = Some (Some (deck [slide_without_image, slide_with_image]))
   \<and> presentationError
     (snd (handleGenerateFullPresentation UploadedContentContext page_1
             (Inr (Some (deck [slide_without_image, slide_without_image]))) id
             (Inr (Some (deck [slide_without_image, slide_with_image]))) [''Slide 1'', ''Slide 2''] id
             page_1))
     = Some ''Some slide visuals could not be generated.''"
proof -
  let ?run = "handleGenerateFullPresentation UploadedContentContext page_1
             (Inr (Some (deck [slide_without_image, slide_without_image]))) id
             (Inr (Some (deck [slide_without_image, slide_with_image]))) [''Slide 1'', ''Slide 2''] id
             page_1"
  have ident: "material_id material_1 \<noteq> []"
    by (simp add: page_1_loaded)
  have run: "?run = (fst ?run, snd ?run)"
    by simp
  have stored: "studyMaterials (snd ?run) (material_id material_1)
      = Some (material_1\<lparr>presentationContent := Some (deck [slide_without_image, slide_with_image])\<rparr>)"
    by (simp add: presentation_two_phases [OF page_1_loaded(1) ident page_1_loaded(3)]
          presentation_afterImages_spec presentation_afterContent_spec
          presentation_progress_eq suspend_def presentation_begin_def call_def
          update_by_id_at update_by_id_def merge_def page_1_loaded)
  have partial: "list_ex no_image (slides (deck [slide_without_image, slide_with_image]))"
    by (simp add: deck_def no_image_def truthy_def slide_without_image_def)
  let ?none = "handleGenerateFullPresentation UploadedContentContext page_1
             (Inr (Some (deck [slide_without_image, slide_without_image]))) id
             (Inr None) [''Slide 1'', ''Slide 2''] id page_1"
  have none: "?none = (fst ?none, snd ?none)"
    by simp
  have cleared: "studyMaterials (snd ?none) (material_id material_1)
      = Some (material_1\<lparr>presentationContent := None\<rparr>)"
    by (simp add: presentation_two_phases [OF page_1_loaded(1) ident page_1_loaded(3)]
          presentation_afterImages_def presentation_catch_spec presentation_afterContent_spec
          presentation_progress_eq suspend_def presentation_begin_def call_def
          update_by_id_at update_by_id_def merge_def page_1_loaded)
  show ?thesis
    using presentation_images_returned
        [OF page_1_loaded(1) ident page_1_loaded(3) run stored none cleared]
      stored partial
    by (simp add: page_1_loaded)
qed

text \<open>
  The claim as stated asks that the presentation content ends absent when the image phase
  completes but fails for every slide. In the run below every slide of the returned
  content has no image, and the content is kept in the store.
\<close>

theorem presentation_all_images_failed_counterexample:
  "list_all no_image (slides (deck [slide_without_image, slide_without_image]))
   \<and> map_option presentationContent (studyMaterials
     (snd (handleGenerateFullPresentation UploadedContentContext page_1
             (Inr (Some (deck [slide_without_image, slide_without_image]))) id
             (Inr (Some (deck [slide_without_image, slide_without_image]))) [] id page_1)) ''m1'')
     = Some (Some (deck [slide_without_image, slide_without_image]))
   \<and> map_option presentationContent (studyMaterials
     (snd (handleGenerateFullPresentation UploadedContentContext page_1
             (Inr (Some (deck [slide_without_image, slide_without_image]))) id
             (Inr (Some (deck [slide_without_image, slide_without_image]))) [] id page_1)) ''m1'')
     \<noteq> Some None"
proof -
  have ident: "material_id material_1 \<noteq> []"
    by (simp add: page_1_loaded)
  have every: "list_all no_image (slides (deck [slide_without_image, slide_without_image]))"
    by (simp add: deck_def no_image_def truthy_def slide_without_image_def)
  have kept: "map_option presentationContent (studyMaterials
     (snd (handleGenerateFullPresentation UploadedContentContext page_1
             (Inr (Some (deck [slide_without_image, slide_without_image]))) id
             (Inr (Some (deck [slide_without_image, slide_without_image]))) [] id page_1)) ''m1'')
     = Some (Some (deck [slide_without_image, slide_without_image]))"
    by (simp add: presentation_two_phases [OF page_1_loaded(1) ident page_1_loaded(3)]
          presentation_afterImages_spec presentation_afterContent_spec
          presentation_progress_eq suspend_def presentation_begin_def call_def
          update_by_id_at update_by_id_def merge_def page_1_loaded)
  show ?thesis
    unfolding kept using every by simp
qed

text \<open>
  Claim C3. The explanation is present, phase 1 returns slide content and phase 2 throws.
  Then the material's presentation content is reset to absent, and the presentation error
  is set to the message of the exception, or to \<^verbatim>\<open>An unknown error occurred.\<close> when
  that message is empty; in both cases a non-empty text.
\<close>

theorem presentation_phase2_throws:
  assumes "material r = Some m" and "material_id m \<noteq> []" and "truthy (aiExplanation m)"
      and "handleGenerateFullPresentation UploadedContentContext r (Inr (Some content)) f1
             (Inl err) ps f2 w = (x, w')"
      and "studyMaterials w' (material_id m) = Some m'"
  shows "presentationContent m' = None
       \<and> presentationError w' = Some (or_else (Some (message err)) ''An unknown error occurred.'')
       \<and> or_else (Some (message err)) ''An unknown error occurred.'' \<noteq> []"
proof -
  obtain v where run: "presentation_afterImages UploadedContentContext m (Inl err) v = (x, w')"
    using assms(4) presentation_two_phases [OF assms(1-3)] by simp
  from run have w': "w' = snd (presentation_catch UploadedContentContext m err v)"
    by (simp add: presentation_afterImages_def)
  have "presentationContent m' = None"
    using assms(5) unfolding w'
    by (auto simp: presentation_catch_spec update_by_id_at merge_def)
  moreover have "presentationError w' = Some (or_else (Some (message err)) ''An unknown error occurred.'')"
    unfolding w' by (simp add: presentation_catch_spec)
  ultimately show ?thesis by (simp add: or_else_nonempty)
qed

theorem presentation_phase2_throws_witness:
  "map_option presentationContent (studyMaterials
     (snd (handleGenerateFullPresentation UploadedContentContext page_1
             (Inr (Some (deck [slide_without_image, slide_without_image]))) id
             (Inl (Error ''Image quota exceeded'')) [''Slide 1''] id page_1)) ''m1'') = Some None
   \<and> presentationError
     (snd (handleGenerateFullPresentation UploadedContentContext page_1
             (Inr (Some (deck [slide_without_image, slide_without_image]))) id
             (Inl (Error ''Image quota exceeded'')) [''Slide 1''] id page_1))
     = Some ''Image quota exceeded''"
proof -
  let ?run = "handleGenerateFullPresentation UploadedContentContext page_1
             (Inr (Some (deck [slide_without_image, slide_without_image]))) id
             (Inl (Error ''Image quota exceeded'')) [''Slide 1''] id page_1"
  have ident: "material_id material_1 \<noteq> []"
    by (simp add: page_1_loaded)
  have run: "?run = (fst ?run, snd ?run)"
    by simp
  have stored: "studyMaterials (snd ?run) (material_id material_1)
                  = Some (material_1\<lparr>presentationContent := None\<rparr>)"
    by (simp add: presentation_two_phases [OF page_1_loaded(1) ident page_1_loaded(3)]
          presentation_afterImages_def presentation_catch_spec presentation_afterContent_spec
          presentation_progress_eq suspend_def presentation_begin_def call_def
          update_by_id_at update_by_id_def merge_def page_1_loaded)
  show ?thesis
    using presentation_phase2_throws [OF page_1_loaded(1) ident page_1_loaded(3) run stored] stored
    by (simp add: page_1_loaded or_else_def)
qed


lemma presentation_catch_effects:
  "effects (snd (presentation_catch ctx m err v)) =
     effects v @ [StoreWrite (material_id m) [Set_presentationContent None]]"
  by (simp add: presentation_catch_def presentation_finally_def store_write_def Let_def
        split: prod.splits sum.splits)

lemma presentation_afterImages_effects:
  "\<exists>rest. effects (snd (presentation_afterImages ctx m r2 v)) = effects v @ rest
          \<and> GatewayCall GeneratePresentationImages \<notin> set rest"
proof (cases r2)
  case (Inl err)
  then show ?thesis
    by (simp add: presentation_afterImages_def presentation_catch_effects)
next
  case (Inr result)
  show ?thesis
  proof (cases result)
    case None
    with Inr show ?thesis
      by (simp add: presentation_afterImages_def presentation_catch_effects)
  next
    case (Some contentWithImages)
    show ?thesis
    proof (cases "updateStudyMaterial ctx (studyMaterials v) (material_id m)
                    [Set_presentationContent (Some contentWithImages)]")
      case (Inl err)
      with Inr Some show ?thesis
        by (simp add: presentation_afterImages_def presentation_catch_effects store_write_def)
    next
      case (Inr s)
      with \<open>r2 = Inr result\<close> Some show ?thesis
        by (simp add: presentation_afterImages_def store_write_def presentation_finally_def)
    qed
  qed
qed

lemma presentation_afterContent_suspended:
  assumes "presentation_afterContent ctx m r1 v = (Suspended, v')"
  shows "\<exists>content. r1 = Inr (Some content)
           \<and> updateStudyMaterial ctx (studyMaterials v) (material_id m)
                [Set_presentationContent (Some content)] = Inr (studyMaterials v')
           \<and> effects v' = effects v @
                [StoreWrite (material_id m) [Set_presentationContent (Some content)],
                 GatewayCall GeneratePresentationImages]"
  using assms
  by (auto simp: presentation_afterContent_def store_write_def call_def Let_def
        split: sum.splits option.splits prod.splits)

lemma presentation_afterContent_finished:
  assumes "presentation_afterContent ctx m r1 v = (Finished x, v')"
  shows "\<exists>rest. effects v' = effects v @ rest \<and> GatewayCall GeneratePresentationImages \<notin> set rest"
proof (cases r1)
  case (Inl err)
  with assms have "v' = snd (presentation_catch ctx m err v)"
    by (auto simp: presentation_afterContent_def split: prod.splits)
  then show ?thesis by (simp add: presentation_catch_effects)
next
  case (Inr result)
  show ?thesis
  proof (cases result)
    case None
    with Inr assms
    have "v' = snd (presentation_catch ctx m (Error ''The AI failed to generate presentation content.'') v)"
      by (auto simp: presentation_afterContent_def split: prod.splits)
    then show ?thesis by (simp add: presentation_catch_effects)
  next
    case (Some content)
    with Inr assms obtain err v1 where
      "store_write ctx (material_id m) [Set_presentationContent (Some content)] v = (Some err, v1)"
      "v' = snd (presentation_catch ctx m err v1)"
      by (auto simp: presentation_afterContent_def split: prod.splits option.splits)
    moreover from this(1) have "effects v1 = effects v @
        [StoreWrite (material_id m) [Set_presentationContent (Some content)]]"
      by (auto simp: store_write_def Let_def split: sum.splits)
    ultimately show ?thesis by (simp add: presentation_catch_effects)
  qed
qed

text \<open>
  Claim C8. In every presentation generation that passes its guard, the log of the
  invocation has one of two shapes. Either \<^verbatim>\<open>generatePresentationImages\<close> is never
  called. Or phase 1 returned \<open>content\<close>, the store update with \<open>content\<close> returned
  normally with the new store \<open>s\<close>, and the call of \<^verbatim>\<open>generatePresentationImages\<close>
  is the very next effect after that store write; the state in which phase 2 begins holds
  the store \<open>s\<close>, and on the modelled store \<open>s\<close> has \<open>content\<close> as the presentation
  content of the material (if the material is in the store). Phase 2 is called once at
  most.
\<close>

theorem phase2_after_phase1_write:
  assumes "material r = Some m" and "material_id m \<noteq> []" and "truthy (aiExplanation m)"
  shows "(\<exists>rest. effects (snd (handleGenerateFullPresentation ctx r r1 f1 r2 ps f2 w)) =
                   effects w @ GatewayCall GeneratePresentationContent # rest
                 \<and> GatewayCall GeneratePresentationImages \<notin> set rest)
       \<or> (\<exists>content s rest. r1 = Inr (Some content)
             \<and> updateStudyMaterial ctx (studyMaterials (f1 (presentation_begin w))) (material_id m)
                  [Set_presentationContent (Some content)] = Inr s
             \<and> presentation_afterContent ctx m r1 (suspend f1 (presentation_begin w)) =
                 (Suspended,
                  (suspend f1 (presentation_begin w))
                    \<lparr>effects := effects w @
                       [GatewayCall GeneratePresentationContent,
                        StoreWrite (material_id m) [Set_presentationContent (Some content)],
                        GatewayCall GeneratePresentationImages],
                     studyMaterials := s\<rparr>)
             \<and> effects (snd (handleGenerateFullPresentation ctx r r1 f1 r2 ps f2 w)) =
                 effects w @
                   [GatewayCall GeneratePresentationContent,
                    StoreWrite (material_id m) [Set_presentationContent (Some content)],
                    GatewayCall GeneratePresentationImages] @ rest
             \<and> GatewayCall GeneratePresentationImages \<notin> set rest
             \<and> (ctx = UploadedContentContext \<longrightarrow>
                  s (material_id m) =
                    map_option (\<lambda>mc. mc\<lparr>presentationContent := Some content\<rparr>)
                      (studyMaterials (f1 (presentation_begin w)) (material_id m))))"
proof -
  let ?v = "suspend f1 (presentation_begin w)"
  have start: "effects ?v = effects w @ [GatewayCall GeneratePresentationContent]"
    by (simp add: suspend_def presentation_begin_def call_def)
  obtain st v' where seg: "presentation_afterContent ctx m r1 ?v = (st, v')"
    by (cases "presentation_afterContent ctx m r1 ?v")
  show ?thesis
  proof (cases st)
    case (Finished x)
    with seg obtain rest where "effects v' = effects ?v @ rest"
        "GatewayCall GeneratePresentationImages \<notin> set rest"
      using presentation_afterContent_finished by blast
    moreover have "snd (handleGenerateFullPresentation ctx r r1 f1 r2 ps f2 w) = v'"
      using assms seg Finished by (simp add: handleGenerateFullPresentation_def)
    ultimately show ?thesis using start by simp
  next
    case Suspended
    with seg obtain content where c: "r1 = Inr (Some content)"
        "updateStudyMaterial ctx (studyMaterials ?v) (material_id m)
           [Set_presentationContent (Some content)] = Inr (studyMaterials v')"
        "effects v' = effects ?v @
           [StoreWrite (material_id m) [Set_presentationContent (Some content)],
            GatewayCall GeneratePresentationImages]"
      using presentation_afterContent_suspended by blast
    let ?v2 = "presentation_progress ps (suspend f2 v')"
    have run: "snd (handleGenerateFullPresentation ctx r r1 f1 r2 ps f2 w) =
                 snd (presentation_afterImages ctx m r2 ?v2)"
      using assms seg Suspended by (simp add: handleGenerateFullPresentation_def)
    have "effects ?v2 = effects v'"
      by (simp add: presentation_progress_eq suspend_def)
    then obtain rest where rest: "effects (snd (presentation_afterImages ctx m r2 ?v2)) = effects v' @ rest"
        "GatewayCall GeneratePresentationImages \<notin> set rest"
      using presentation_afterImages_effects [of ctx m r2 ?v2] by auto
    have seg': "presentation_afterContent ctx m r1 ?v =
                 (Suspended,
                  ?v\<lparr>effects := effects w @
                       [GatewayCall GeneratePresentationContent,
                        StoreWrite (material_id m) [Set_presentationContent (Some content)],
                        GatewayCall GeneratePresentationImages],
                     studyMaterials := studyMaterials v'\<rparr>)"
      using c(1,2) start
      by (simp add: presentation_afterContent_def store_write_def call_def Let_def)
    have store: "studyMaterials ?v = studyMaterials (f1 (presentation_begin w))"
      by (simp add: suspend_def)
    have "studyMaterials v' (material_id m) =
            map_option (\<lambda>mc. mc\<lparr>presentationContent := Some content\<rparr>)
              (studyMaterials (f1 (presentation_begin w)) (material_id m))"
      if "ctx = UploadedContentContext"
    proof -
      from c(2) that have "studyMaterials v' =
          update_by_id (studyMaterials ?v) (material_id m) [Set_presentationContent (Some content)]"
        by (simp add: UploadedContentContext_def)
      then show ?thesis
        by (simp add: update_by_id_at merge_def store)
    qed
    with c rest run start seg' store show ?thesis
      by auto
  qed
qed


theorem phase2_after_phase1_write_witness:
  "effects (snd (handleGenerateFullPresentation UploadedContentContext page_1
             (Inr (Some (deck [slide_without_image]))) id
             (Inr (Some (deck [slide_with_image]))) [''Slide 1''] id page_1))
     = [GatewayCall GeneratePresentationContent,
        StoreWrite ''m1'' [Set_presentationContent (Some (deck [slide_without_image]))],
        GatewayCall GeneratePresentationImages,
        StoreWrite ''m1'' [Set_presentationContent (Some (deck [slide_with_image]))]]
   \<and> map_option presentationContent (studyMaterials
        (snd (presentation_afterContent UploadedContentContext material_1
                (Inr (Some (deck [slide_without_image]))) (suspend id (presentation_begin page_1))))
        ''m1'')
     = Some (Some (deck [slide_without_image]))"
proof -
  have ident: "material_id material_1 \<noteq> []"
    by (simp add: page_1_loaded)
  have log: "effects (snd (handleGenerateFullPresentation UploadedContentContext page_1
             (Inr (Some (deck [slide_without_image]))) id
             (Inr (Some (deck [slide_with_image]))) [''Slide 1''] id page_1))
     = [GatewayCall GeneratePresentationContent,
        StoreWrite ''m1'' [Set_presentationContent (Some (deck [slide_without_image]))],
        GatewayCall GeneratePresentationImages,
        StoreWrite ''m1'' [Set_presentationContent (Some (deck [slide_with_image]))]]"
    by (simp add: presentation_two_phases [OF page_1_loaded(1) ident page_1_loaded(3)]
          presentation_afterImages_spec presentation_afterContent_spec
          presentation_progress_eq suspend_def presentation_begin_def call_def page_1_loaded)
       (simp add: page_1_def)
  have called: "GatewayCall GeneratePresentationImages \<in> set (effects
        (snd (handleGenerateFullPresentation UploadedContentContext page_1
             (Inr (Some (deck [slide_without_image]))) id
             (Inr (Some (deck [slide_with_image]))) [''Slide 1''] id page_1)))"
    unfolding log by simp
  have empty_log: "effects page_1 = []"
    by (simp add: page_1_def)
  from phase2_after_phase1_write [OF page_1_loaded(1) ident page_1_loaded(3),
      where ctx = UploadedContentContext and ?r1.0 = "Inr (Some (deck [slide_without_image]))"
        and ?f1.0 = id and ?r2.0 = "Inr (Some (deck [slide_with_image]))" and ps = "[''Slide 1'']"
        and ?f2.0 = id and w = page_1]
    called
  obtain s where
    "presentation_afterContent UploadedContentContext material_1
        (Inr (Some (deck [slide_without_image]))) (suspend id (presentation_begin page_1)) =
       (Suspended,
        (suspend id (presentation_begin page_1))
          \<lparr>effects := effects page_1 @
             [GatewayCall GeneratePresentationContent,
              StoreWrite (material_id material_1)
                [Set_presentationContent (Some (deck [slide_without_image]))],
              GatewayCall GeneratePresentationImages],
           studyMaterials := s\<rparr>)"
    "s (material_id material_1) =
       map_option (\<lambda>mc. mc\<lparr>presentationContent := Some (deck [slide_without_image])\<rparr>)
         (studyMaterials (id (presentation_begin page_1)) (material_id material_1))"
    by (auto simp: empty_log)
  then have "map_option presentationContent (studyMaterials
        (snd (presentation_afterContent UploadedContentContext material_1
                (Inr (Some (deck [slide_without_image]))) (suspend id (presentation_begin page_1))))
        ''m1'')
     = Some (Some (deck [slide_without_image]))"
    by (simp add: page_1_loaded presentation_begin_def call_def)
  with log show ?thesis by simp
qed

subsection \<open>Guards\<close>

text \<open>
  Claim C4. When the loaded material has no explanation, or an empty one, each of
  presentation, diagram and video generation returns at once. The only change to the
  state is the error message of that feature: the log of effects is unchanged, so no
  gateway function is called, and the store is unchanged, so \<open>presentationContent\<close>,
  \<open>blockDiagramMermaid\<close> and \<open>videoScenes\<close> are as they were.
\<close>

theorem no_explanation_no_generation:
  assumes "material r = Some m" and "\<not> truthy (aiExplanation m)"
  shows "handleGenerateFullPresentation ctx r r1 f1 r2 ps f2 w =
           (None, w\<lparr>presentationError :=
                      Some ''An explanation must be generated first to create a presentation.''\<rparr>)
       \<and> handleGenerateBlockDiagram ctx r res f w =
           (None, w\<lparr>diagramError := Some ''Please generate an explanation first.''\<rparr>)
       \<and> handleGenerateVideo ctx r res' ps' f' w =
           (None, w\<lparr>error := (error w)(''video'' \<mapsto> Some ''Please generate an explanation first.'')\<rparr>)"
  using assms
  by (simp add: handleGenerateFullPresentation_def handleGenerateBlockDiagram_def handleGenerateVideo_def)


theorem no_explanation_no_generation_witness:
  "handleGenerateFullPresentation UploadedContentContext
      (page_1\<lparr>material := Some (material_1\<lparr>aiExplanation := None\<rparr>)\<rparr>)
      (Inr (Some (deck [slide_with_image]))) id (Inr (Some (deck [slide_with_image]))) [] id page_1
    = (None, page_1\<lparr>presentationError :=
                      Some ''An explanation must be generated first to create a presentation.''\<rparr>)
   \<and> handleGenerateBlockDiagram UploadedContentContext
      (page_1\<lparr>material := Some (material_1\<lparr>aiExplanation := None\<rparr>)\<rparr>)
      (Inr (Some ''graph TD; A-->B'')) id page_1
    = (None, page_1\<lparr>diagramError := Some ''Please generate an explanation first.''\<rparr>)
   \<and> handleGenerateVideo UploadedContentContext
      (page_1\<lparr>material := Some (material_1\<lparr>aiExplanation := Some []\<rparr>)\<rparr>)
      (Inr (Some [scene_1])) [] id page_1
    = (None, page_1\<lparr>error := (error page_1)(''video'' \<mapsto> Some ''Please generate an explanation first.'')\<rparr>)"
proof -
  have absent: "material (page_1\<lparr>material := Some (material_1\<lparr>aiExplanation := None\<rparr>)\<rparr>)
                  = Some (material_1\<lparr>aiExplanation := None\<rparr>)"
    by simp
  have absent': "\<not> truthy (aiExplanation (material_1\<lparr>aiExplanation := None\<rparr>))"
    by (simp add: truthy_def)
  have blank: "material (page_1\<lparr>material := Some (material_1\<lparr>aiExplanation := Some []\<rparr>)\<rparr>)
                  = Some (material_1\<lparr>aiExplanation := Some []\<rparr>)"
    by simp
  have blank': "\<not> truthy (aiExplanation (material_1\<lparr>aiExplanation := Some []\<rparr>))"
    by (simp add: truthy_def)
  show ?thesis
    by (simp add: no_explanation_no_generation [OF absent absent']
          no_explanation_no_generation [OF blank blank'])
qed

subsection \<open>Notes and explanation\<close>

text \<open>
  Claim C5, as the code has it. The page shows the material \<open>m\<close>, and the material is in
  the store (as \<open>mc\<close>) when the gateway result arrives. A successful notes generation
  at the selected length makes one store write, which sets the one field \<open>notes\<close>, to
  the notes of \<open>m\<close> as the handler captured them with the selected length set to the
  result. So the stored material afterwards is \<open>mc\<close> with only its notes replaced, every
  other material in the store is as it was, the note at the selected length is the result,
  and the note at every other length is the one \<open>m\<close> had: it is unchanged by the write
  when the store held the same note at that length as \<open>m\<close>, and a note that another
  task stored while the handler was suspended is overwritten. A successful
  explanation generation makes one store write, which sets the one field
  \<open>aiExplanation\<close>; the stored material afterwards is \<open>mc'\<close> with only its explanation
  replaced.
\<close>

theorem generate_writes_one_field:
  assumes "material r = Some m" and "material_id m \<noteq> []"
      and "studyMaterials (f (handleGenerate_begin Notes GenerateNotes w)) (material_id m) = Some mc"
      and "studyMaterials (f' (handleGenerate_begin Explanation GenerateExplanation w)) (material_id m)
             = Some mc'"
  shows "studyMaterials (snd (handleGenerateNotes UploadedContentContext r (Inr result) f w)) =
           (studyMaterials (f (handleGenerate_begin Notes GenerateNotes w)))
             (material_id m \<mapsto>
                mc\<lparr>material_notes := Some ((case material_notes m of None \<Rightarrow> Map.empty | Some n \<Rightarrow> n)(selectedNoteLength r \<mapsto> result))\<rparr>)
       \<and> effects (snd (handleGenerateNotes UploadedContentContext r (Inr result) f w)) =
           effects w @
             [GatewayCall GenerateNotes,
              StoreWrite (material_id m)
                [Set_notes (Some ((case material_notes m of None \<Rightarrow> Map.empty | Some n \<Rightarrow> n)(selectedNoteLength r \<mapsto> result)))]]
       \<and> noteForLength
             (studyMaterials (snd (handleGenerateNotes UploadedContentContext r (Inr result) f w))
                (material_id m)) l
           = (if l = selectedNoteLength r then Some result else noteForLength (Some m) l)
       \<and> (noteForLength (Some mc) l = noteForLength (Some m) l \<longrightarrow>
            noteForLength
              (studyMaterials (snd (handleGenerateNotes UploadedContentContext r (Inr result) f w))
                 (material_id m)) l
            = (if l = selectedNoteLength r then Some result else noteForLength (Some mc) l))
       \<and> studyMaterials
             (snd (handleGenerate UploadedContentContext r Explanation GenerateExplanation (Inr result') f' w)) =
           (studyMaterials (f' (handleGenerate_begin Explanation GenerateExplanation w)))
             (material_id m \<mapsto> mc'\<lparr>aiExplanation := Some result'\<rparr>)
       \<and> effects
             (snd (handleGenerate UploadedContentContext r Explanation GenerateExplanation (Inr result') f' w)) =
           effects w @
             [GatewayCall GenerateExplanation,
              StoreWrite (material_id m) [Set_aiExplanation (Some result')]]"
  using assms
  by (simp add: handleGenerateNotes_def handleGenerate_def generate_finish_spec suspend_def
        handleGenerate_begin_def call_def update_by_id_def merge_def noteForLength_def spread_def)

text \<open>
  Notes requested at length \<open>DETAILED\<close> when a \<open>SHORT\<close> note exists and no other task
  runs: the short note is unchanged and the detailed note is the result.
\<close>

theorem generate_writes_one_field_witness:
  "noteForLength (studyMaterials
      (snd (handleGenerateNotes UploadedContentContext page_1 (Inr ''detailed notes'') id page_1)) ''m1'')
      SHORT = Some ''short notes''
   \<and> noteForLength (studyMaterials
      (snd (handleGenerateNotes UploadedContentContext page_1 (Inr ''detailed notes'') id page_1)) ''m1'')
      DETAILED = Some ''detailed notes''
   \<and> studyMaterials
      (snd (handleGenerateNotes UploadedContentContext page_1 (Inr ''detailed notes'') id page_1)) ''m1''
      = Some (material_1\<lparr>material_notes := Some [SHORT \<mapsto> ''short notes'', DETAILED \<mapsto> ''detailed notes'']\<rparr>)
   \<and> studyMaterials
      (snd (handleGenerate UploadedContentContext page_1 Explanation GenerateExplanation
              (Inr ''A cell splits in two.'') id page_1)) ''m1''
      = Some (material_1\<lparr>aiExplanation := Some ''A cell splits in two.''\<rparr>)"
proof -
  have ident: "material_id material_1 \<noteq> []"
    by (simp add: page_1_loaded)
  have notes_end: "studyMaterials (id (handleGenerate_begin Notes GenerateNotes page_1))
                     (material_id material_1) = Some material_1"
    by (simp add: handleGenerate_begin_def call_def page_1_loaded)
  have expl_end: "studyMaterials (id (handleGenerate_begin Explanation GenerateExplanation page_1))
                    (material_id material_1) = Some material_1"
    by (simp add: handleGenerate_begin_def call_def page_1_loaded)
  have length: "selectedNoteLength page_1 = DETAILED"
    by (simp add: page_1_def)
  have short: "material_notes material_1 = Some [SHORT \<mapsto> ''short notes'']"
    by (simp add: material_1_def)
  from generate_writes_one_field [where f = id and f' = id and result = "''detailed notes''"
        and result' = "''A cell splits in two.''",
        OF page_1_loaded(1) ident notes_end expl_end, where l = SHORT]
    generate_writes_one_field [where f = id and f' = id and result = "''detailed notes''"
        and result' = "''A cell splits in two.''",
        OF page_1_loaded(1) ident notes_end expl_end, where l = DETAILED]
  show ?thesis
    by (simp add: length short page_1_loaded noteForLength_def spread_def)
qed

text \<open>
  The claim as stated asks that the write touches only the key of the selected length.
  While the handler waits for the detailed notes another task stores a note of medium
  length; the store then holds it, and the write of the detailed notes, built from the
  notes the handler captured, removes it.
\<close>

theorem notes_stored_during_await_lost_counterexample:
  "noteForLength (studyMaterials
      (suspend other_task_stores_MEDIUM (handleGenerate_begin Notes GenerateNotes page_1)) ''m1'')
      MEDIUM = Some ''medium notes''
   \<and> noteForLength (studyMaterials
      (snd (handleGenerateNotes UploadedContentContext page_1 (Inr ''detailed notes'')
              other_task_stores_MEDIUM page_1)) ''m1'')
      MEDIUM = None
   \<and> noteForLength (studyMaterials
      (snd (handleGenerateNotes UploadedContentContext page_1 (Inr ''detailed notes'')
              other_task_stores_MEDIUM page_1)) ''m1'')
      MEDIUM
     \<noteq> noteForLength (studyMaterials
      (suspend other_task_stores_MEDIUM (handleGenerate_begin Notes GenerateNotes page_1)) ''m1'')
      MEDIUM"
proof -
  have notes1: "material_notes material_1 = Some [SHORT \<mapsto> ''short notes'']"
    by (simp add: material_1_def)
  have length: "selectedNoteLength page_1 = DETAILED"
    by (simp add: page_1_def)
  have pending: "noteForLength (studyMaterials
      (suspend other_task_stores_MEDIUM (handleGenerate_begin Notes GenerateNotes page_1)) ''m1'')
      MEDIUM = Some ''medium notes''"
    by (simp add: suspend_def other_task_stores_MEDIUM_def handleGenerate_begin_def call_def
          update_by_id_at merge_def noteForLength_def spread_def page_1_loaded)
  have after: "noteForLength (studyMaterials
      (snd (handleGenerateNotes UploadedContentContext page_1 (Inr ''detailed notes'')
              other_task_stores_MEDIUM page_1)) ''m1'')
      MEDIUM = None"
    by (simp add: handleGenerateNotes_def handleGenerate_def generate_finish_spec suspend_def
          other_task_stores_MEDIUM_def handleGenerate_begin_def call_def update_by_id_at
          merge_def noteForLength_def spread_def page_1_loaded notes1 length)
  show ?thesis
    unfolding pending after by simp
qed


subsection \<open>Diagram\<close>

text \<open>
  Claim C6. After a diagram generation that passed its guard, the diagram field of the
  material in the store is the text the gateway returned when that text is non-empty, and
  the sentinel \<^verbatim>\<open>error\<close> when the gateway returned nothing, returned the empty
  string, or threw. It is never the empty string.
\<close>

theorem diagram_never_empty:
  assumes "material r = Some m" and "truthy (aiExplanation m)"
      and "handleGenerateBlockDiagram UploadedContentContext r res f w = (x, w')"
      and "studyMaterials w' (material_id m) = Some m'"
  shows "blockDiagramMermaid m' =
           Some (case res of Inl err \<Rightarrow> ''error'' | Inr mermaidCode \<Rightarrow> or_else mermaidCode ''error'')
       \<and> blockDiagramMermaid m' \<noteq> Some []"
  using assms
  by (auto simp: handleGenerateBlockDiagram_def diagram_finish_def diagram_catch_def
        store_write_spec update_by_id_at merge_def or_else_def
        split: sum.splits option.splits if_splits)


theorem diagram_never_empty_witness:
  "map_option blockDiagramMermaid (studyMaterials
     (snd (handleGenerateBlockDiagram UploadedContentContext page_1 (Inr (Some [])) id page_1)) ''m1'')
     = Some (Some ''error'')
   \<and> map_option blockDiagramMermaid (studyMaterials
     (snd (handleGenerateBlockDiagram UploadedContentContext page_1 (Inr (Some ''graph TD; A-->B'')) id
             page_1)) ''m1'')
     = Some (Some ''graph TD; A-->B'')
   \<and> map_option blockDiagramMermaid (studyMaterials
     (snd (handleGenerateBlockDiagram UploadedContentContext page_1 (Inl (Error ''Network error'')) id
             page_1)) ''m1'')
     = Some (Some ''error'')"
proof -
  have stored: "studyMaterials (snd (handleGenerateBlockDiagram UploadedContentContext page_1 res id page_1))
                  (material_id material_1)
      = Some (material_1\<lparr>blockDiagramMermaid :=
          Some (case res of Inl err \<Rightarrow> ''error'' | Inr mermaidCode \<Rightarrow> or_else mermaidCode ''error'')\<rparr>)"
    for res
    by (simp add: handleGenerateBlockDiagram_def diagram_finish_def diagram_catch_def store_write_spec
          diagram_begin_def call_def suspend_def update_by_id_at merge_def page_1_loaded
          split: sum.splits)
  have run: "handleGenerateBlockDiagram UploadedContentContext page_1 res id page_1 =
      (fst (handleGenerateBlockDiagram UploadedContentContext page_1 res id page_1),
       snd (handleGenerateBlockDiagram UploadedContentContext page_1 res id page_1))" for res
    by simp
  from diagram_never_empty [OF page_1_loaded(1) page_1_loaded(3) run stored, of "Inr (Some [])"]
    diagram_never_empty [OF page_1_loaded(1) page_1_loaded(3) run stored, of "Inr (Some ''graph TD; A-->B'')"]
    diagram_never_empty [OF page_1_loaded(1) page_1_loaded(3) run stored, of "Inl (Error ''Network error'')"]
    stored [of "Inr (Some [])"] stored [of "Inr (Some ''graph TD; A-->B'')"]
    stored [of "Inl (Error ''Network error'')"]
  show ?thesis
    by (simp add: page_1_loaded or_else_def)
qed

subsection \<open>Video\<close>

text \<open>
  Claim C10. If \<^verbatim>\<open>generateVideoAssets\<close> throws, the handler resolves without writing
  to the store: its only effect is the gateway call, and the store is as the other tasks
  left it. When no other task ran, the state afterwards differs from the state before only
  in the log, the video loading flag (false), the video error (the message of the
  exception, or \<^verbatim>\<open>An unknown error occurred.\<close> when that message is empty) and the
  progress text (empty). If the gateway returns, the handler resolves after writing
  \<open>videoScenes\<close> once: to the returned list of scenes when there is one, to the empty list
  when nothing was returned. That is the value of the field afterwards, and the video
  error is as the other tasks left it.
\<close>

theorem video_failure_keeps_scenes:
  assumes "material r = Some m" and "truthy (aiExplanation m)"
  shows "fst (handleGenerateVideo ctx r (Inl err) ps f w) = None
       \<and> studyMaterials (snd (handleGenerateVideo ctx r (Inl err) ps f w)) =
           studyMaterials (f (video_begin w))
       \<and> effects (snd (handleGenerateVideo ctx r (Inl err) ps f w)) =
           effects w @ [GatewayCall GenerateVideoAssets]
       \<and> handleGenerateVideo ctx r (Inl err) ps (\<lambda>v. v) w =
           (None,
            w\<lparr>effects := effects w @ [GatewayCall GenerateVideoAssets],
               isLoading := (isLoading w)(''video'' \<mapsto> False),
               error := (error w)(''video'' \<mapsto>
                 Some (if message err = [] then ''An unknown error occurred.'' else message err)),
               videoGenerationProgress := []\<rparr>)
       \<and> effects (snd (handleGenerateVideo UploadedContentContext r (Inr scenes) ps f w)) =
           effects w @
             [GatewayCall GenerateVideoAssets,
              StoreWrite (material_id m)
                [Set_videoScenes (Some (case scenes of None \<Rightarrow> [] | Some returned \<Rightarrow> returned))]]
       \<and> studyMaterials (snd (handleGenerateVideo UploadedContentContext r (Inr scenes) ps f w))
             (material_id m) =
           map_option
             (\<lambda>mc. mc\<lparr>videoScenes := Some (case scenes of None \<Rightarrow> [] | Some returned \<Rightarrow> returned)\<rparr>)
             (studyMaterials (f (video_begin w)) (material_id m))
       \<and> fst (handleGenerateVideo UploadedContentContext r (Inr scenes) ps f w) = None
       \<and> error (snd (handleGenerateVideo UploadedContentContext r (Inr scenes) ps f w)) =
           error (f (video_begin w))"
proof -
  have failed: "handleGenerateVideo ctx r (Inl err) ps f w =
      (None,
       (video_progress ps (suspend f (video_begin w)))
         \<lparr>error := (error (video_progress ps (suspend f (video_begin w))))(''video'' \<mapsto>
             Some (or_else (Some (message err)) ''An unknown error occurred.'')),
          isLoading := (isLoading (video_progress ps (suspend f (video_begin w))))(''video'' \<mapsto> False),
          videoGenerationProgress := []\<rparr>)"
    using assms by (simp add: handleGenerateVideo_def video_finish_def video_catch_def)
  have succeeded: "handleGenerateVideo UploadedContentContext r (Inr scenes) ps f w =
      video_finish UploadedContentContext m (Inr scenes) (video_progress ps (suspend f (video_begin w)))"
    using assms by (simp add: handleGenerateVideo_def)
  have written: "or_empty scenes = (case scenes of None \<Rightarrow> [] | Some returned \<Rightarrow> returned)"
    by (simp add: or_empty_def)
  have a: "fst (handleGenerateVideo ctx r (Inl err) ps f w) = None"
    by (simp add: failed)
  have b: "studyMaterials (snd (handleGenerateVideo ctx r (Inl err) ps f w)) =
           studyMaterials (f (video_begin w))"
    by (simp add: failed video_progress_eq suspend_def)
  have c: "effects (snd (handleGenerateVideo ctx r (Inl err) ps f w)) =
           effects w @ [GatewayCall GenerateVideoAssets]"
    by (simp add: failed video_progress_eq suspend_def video_begin_def call_def)
  have d: "handleGenerateVideo ctx r (Inl err) ps (\<lambda>v. v) w =
           (None,
            w\<lparr>effects := effects w @ [GatewayCall GenerateVideoAssets],
               isLoading := (isLoading w)(''video'' \<mapsto> False),
               error := (error w)(''video'' \<mapsto>
                 Some (if message err = [] then ''An unknown error occurred.'' else message err)),
               videoGenerationProgress := []\<rparr>)"
    using assms
    by (simp add: handleGenerateVideo_def video_finish_def video_catch_def or_else_def
          video_progress_eq suspend_def video_begin_def call_def)
  have e: "effects (snd (handleGenerateVideo UploadedContentContext r (Inr scenes) ps f w)) =
           effects w @
             [GatewayCall GenerateVideoAssets,
              StoreWrite (material_id m)
                [Set_videoScenes (Some (case scenes of None \<Rightarrow> [] | Some returned \<Rightarrow> returned))]]"
    by (simp add: succeeded video_finish_spec video_progress_eq suspend_def video_begin_def call_def
          written)
  have g: "studyMaterials (snd (handleGenerateVideo UploadedContentContext r (Inr scenes) ps f w))
             (material_id m) =
           map_option
             (\<lambda>mc. mc\<lparr>videoScenes := Some (case scenes of None \<Rightarrow> [] | Some returned \<Rightarrow> returned)\<rparr>)
             (studyMaterials (f (video_begin w)) (material_id m))"
    by (simp add: succeeded video_finish_spec video_progress_eq suspend_def update_by_id_at merge_def
          written)
  have h: "fst (handleGenerateVideo UploadedContentContext r (Inr scenes) ps f w) = None"
    by (simp add: succeeded video_finish_spec)
  have i: "error (snd (handleGenerateVideo UploadedContentContext r (Inr scenes) ps f w)) =
           error (f (video_begin w))"
    by (simp add: succeeded video_finish_spec video_progress_eq suspend_def)
  from a b c d e g h i show ?thesis by blast
qed

text \<open>
  A material with one scene. When the gateway throws, the scene is still there and the
  error is the message of the exception (or the fallback text for an empty message). When
  the gateway returns two scenes, these two are stored; when it returns nothing, the empty
  list is stored.
\<close>

theorem video_failure_keeps_scenes_witness:
  "map_option videoScenes (studyMaterials
     (snd (handleGenerateVideo UploadedContentContext page_1 (Inl (Error ''Network error''))
             [''Scene 1''] id page_1)) ''m1'') = Some (Some [scene_1])
   \<and> handleGenerateVideo UploadedContentContext page_1 (Inl (Error ''Network error''))
        [''Scene 1''] (\<lambda>v. v) page_1 =
       (None,
        page_1\<lparr>effects := [GatewayCall GenerateVideoAssets],
               isLoading := [''video'' \<mapsto> False],
               error := [''video'' \<mapsto> Some ''Network error''],
               videoGenerationProgress := []\<rparr>)
   \<and> error (snd (handleGenerateVideo UploadedContentContext page_1 (Inl (Error []))
        [] (\<lambda>v. v) page_1)) ''video'' = Some (Some ''An unknown error occurred.'')
   \<and> map_option videoScenes (studyMaterials
     (snd (handleGenerateVideo UploadedContentContext page_1 (Inr (Some [scene_2, scene_1]))
             [''Scene 1'', ''Scene 2''] id page_1)) ''m1'')
       = Some (Some [scene_2, scene_1])
   \<and> effects
     (snd (handleGenerateVideo UploadedContentContext page_1 (Inr (Some [scene_2, scene_1]))
             [''Scene 1'', ''Scene 2''] id page_1))
       = [GatewayCall GenerateVideoAssets, StoreWrite ''m1'' [Set_videoScenes (Some [scene_2, scene_1])]]
   \<and> map_option videoScenes (studyMaterials
     (snd (handleGenerateVideo UploadedContentContext page_1 (Inr None) [] id page_1)) ''m1'')
       = Some (Some [])"
proof -
  note video = video_failure_keeps_scenes [OF page_1_loaded(1) page_1_loaded(3),
      where ctx = UploadedContentContext and w = page_1]
  have before: "studyMaterials (video_begin page_1) = studyMaterials page_1"
    by (simp add: video_begin_def call_def)
  have scenes: "videoScenes material_1 = Some [scene_1]"
    by (simp add: material_1_def)
  have fresh: "effects page_1 = []" "isLoading page_1 = Map.empty" "error page_1 = Map.empty"
    by (simp_all add: page_1_def)
  from video [where err = "Error ''Network error''" and ps = "[''Scene 1'']" and f = id
        and scenes = "Some [scene_2, scene_1]"]
    video [where err = "Error ''Network error''" and ps = "[''Scene 1'', ''Scene 2'']" and f = id
        and scenes = "Some [scene_2, scene_1]"]
    video [where err = "Error []" and ps = "[]" and f = id and scenes = None]
  show ?thesis
    by (simp add: before scenes fresh page_1_loaded)
qed


subsection \<open>In-progress flags\<close>

lemma generate_flag_cleared:
  "isLoading (snd (handleGenerate_finish ctx m l ty res v)) (type_key ty) = Some False"
  by (simp add: handleGenerate_finish_def Let_def)

lemma presentation_catch_flag:
  "\<not> isGeneratingPresentation (snd (presentation_catch ctx m err v))"
  by (simp add: presentation_catch_def presentation_finally_def split: prod.splits)

lemma presentation_catch_flagD:
  "presentation_catch ctx m err v = (x, v') \<Longrightarrow> \<not> isGeneratingPresentation v'"
  using presentation_catch_flag [of ctx m err v] by simp

lemma presentation_afterImages_flag:
  "\<not> isGeneratingPresentation (snd (presentation_afterImages ctx m r2 v))"
  using presentation_catch_flag [of ctx m]
  by (auto simp: presentation_afterImages_def presentation_finally_def
        split: sum.splits option.splits prod.splits)

lemma presentation_afterContent_flag:
  "presentation_afterContent ctx m r1 v = (Finished x, v') \<Longrightarrow> \<not> isGeneratingPresentation v'"
  by (auto simp: presentation_afterContent_def dest: presentation_catch_flagD
        split: sum.splits option.splits prod.splits)

lemma presentation_flag_cleared:
  assumes "material r = Some m" and "material_id m \<noteq> []" and "truthy (aiExplanation m)"
  shows "\<not> isGeneratingPresentation (snd (handleGenerateFullPresentation ctx r r1 f1 r2 ps f2 w))"
proof (cases "presentation_afterContent ctx m r1 (suspend f1 (presentation_begin w))")
  case (Pair st v')
  show ?thesis
  proof (cases st)
    case (Finished x)
    with Pair assms presentation_afterContent_flag [of ctx m r1 _ x v'] show ?thesis
      by (simp add: handleGenerateFullPresentation_def)
  next
    case Suspended
    with Pair assms presentation_afterImages_flag [of ctx m r2] show ?thesis
      by (simp add: handleGenerateFullPresentation_def)
  qed
qed

lemma diagram_flag_cleared:
  "\<not> isGeneratingDiagram (snd (diagram_finish ctx m res v))"
  by (simp add: diagram_finish_def split: prod.splits)

lemma video_flag_cleared:
  "isLoading (snd (video_finish ctx m res v)) ''video'' = Some False"
  by (simp add: video_finish_def Let_def)

lemma chat_catch_flag:
  "\<not> isAwaitingChatResponse (snd (chat_catch ctx m cs v))"
  by (simp add: chat_catch_def split: prod.splits)

lemma chat_catch_flagD:
  "chat_catch ctx m cs v = (x, v') \<Longrightarrow> \<not> isAwaitingChatResponse v'"
  using chat_catch_flag [of ctx m cs v] by simp

lemma chat_finish_flag:
  "\<not> isAwaitingChatResponse (snd (handleSendMessage_finish ctx m textToSend cs send_r v))"
  using chat_catch_flag [of ctx m cs]
  by (auto simp: handleSendMessage_finish_def split: sum.splits option.splits prod.splits)

lemma chat_begin_written:
  assumes "updateStudyMaterial ctx (studyMaterials w) (material_id m)
             [Set_chatHistory (Some (or_empty (chatHistory m) @ [userMessage (at_send cs) textToSend]))]
           = Inr s"
  shows "handleSendMessage_begin ctx m textToSend cs None w =
           (Suspended,
            w\<lparr>effects := effects w @
                 [StoreWrite (material_id m)
                    [Set_chatHistory (Some (or_empty (chatHistory m) @ [userMessage (at_send cs) textToSend]))],
                  GatewayCall StartOrGetChat, GatewayCall SendMessageToChat],
               studyMaterials := s, chatInput := [], isAwaitingChatResponse := True,
               error := (error w)(''chat'' \<mapsto> None)\<rparr>)"
    and "handleSendMessage_begin ctx m textToSend cs chat_r w = (Finished x, v)
           \<Longrightarrow> \<not> isAwaitingChatResponse v"
  using assms
  by (auto simp: handleSendMessage_begin_def store_write_def call_def Let_def
        dest: chat_catch_flagD split: option.splits prod.splits)

lemma chat_begin_rejected:
  assumes "updateStudyMaterial ctx (studyMaterials w) (material_id m)
             [Set_chatHistory (Some (or_empty (chatHistory m) @ [userMessage (at_send cs) textToSend]))]
           = Inl err"
  shows "handleSendMessage_begin ctx m textToSend cs chat_r w =
           (Finished (Some err),
            w\<lparr>effects := effects w @
                 [StoreWrite (material_id m)
                    [Set_chatHistory (Some (or_empty (chatHistory m) @ [userMessage (at_send cs) textToSend]))]]\<rparr>)"
  using assms by (simp add: handleSendMessage_begin_def store_write_def Let_def)

lemma chat_flag_cleared:
  assumes "material r = Some m" and "material_id m \<noteq> []"
      and "trim (case textOverride of None \<Rightarrow> chatInput r | Some t \<Rightarrow> t) = textToSend"
      and "textToSend \<noteq> []"
      and "updateStudyMaterial ctx (studyMaterials w) (material_id m)
             [Set_chatHistory (Some (or_empty (chatHistory m) @ [userMessage (at_send cs) textToSend]))]
           = Inr s"
  shows "\<not> isAwaitingChatResponse (snd (handleSendMessage ctx r cs textOverride chat_r send_r f w))"
proof (cases "handleSendMessage_begin ctx m textToSend cs chat_r w")
  case (Pair st v)
  show ?thesis
  proof (cases st)
    case (Finished x)
    with Pair assms chat_begin_written(2) [OF assms(5), of chat_r x v] show ?thesis
      by (simp add: handleSendMessage_def Let_def)
  next
    case Suspended
    with Pair assms chat_finish_flag [of ctx m textToSend cs send_r] show ?thesis
      by (simp add: handleSendMessage_def Let_def)
  qed
qed


text \<open>
  Claim C7, as the code has it. A material is loaded, and the invocation passes the guard
  of its handler: the material has an id (for \<^verbatim>\<open>handleGenerate\<close>, presentation and
  chat), it has an explanation (for presentation, diagram and video), and the trimmed chat
  text is not empty. The store operations \<open>ctx\<close> are arbitrary, so any store update may
  throw; the gateway results and the other tasks are arbitrary too.
  \<^item> For \<^verbatim>\<open>handleGenerate\<close> (explanation, notes, also on a material that has no
    explanation yet), presentation, diagram and video: the invocation runs up to its
    gateway call, hands the state it has reached to the other tasks, and continues from
    what they return. In the state it hands over the flag of the feature is true, so the
    outcome of the invocation depends on the other tasks only through what they do to
    states in which the flag is true. When the invocation has completed the flag is false.
  \<^item> For chat, the user message is written to the store before the flag is set and
    outside \<^verbatim>\<open>try\<close>. If that write returns, the same holds as above: the flag is true
    in the state the handler is suspended in and false when the invocation has completed.
    If that write throws, the invocation rejects with that exception and the flag is not
    touched: the state is as it was, but for the log.
\<close>

theorem in_progress_flag_cleared:
  assumes "material r = Some m"
      and "trim (case textOverride of None \<Rightarrow> chatInput r | Some t \<Rightarrow> t) = textToSend"
  shows "(material_id m \<noteq> [] \<longrightarrow>
            handleGenerate ctx r ty g res f w =
              handleGenerate_finish ctx m (selectedNoteLength r) ty res
                (suspend f (handleGenerate_begin ty g w))
          \<and> isLoading (handleGenerate_begin ty g w) (type_key ty) = Some True
          \<and> ((\<forall>v. isLoading v (type_key ty) = Some True \<longrightarrow> f v = f' v) \<longrightarrow>
                handleGenerate ctx r ty g res f w = handleGenerate ctx r ty g res f' w)
          \<and> isLoading (snd (handleGenerate ctx r ty g res f w)) (type_key ty) = Some False)
       \<and> (material_id m \<noteq> [] \<and> truthy (aiExplanation m) \<longrightarrow>
            handleGenerateFullPresentation ctx r r1 f1 r2 ps f2 w =
              (case presentation_afterContent ctx m r1 (suspend f1 (presentation_begin w)) of
                 (Finished x, w1) \<Rightarrow> (x, w1)
               | (Suspended, w1) \<Rightarrow>
                   presentation_afterImages ctx m r2 (presentation_progress ps (suspend f2 w1)))
          \<and> isGeneratingPresentation (presentation_begin w)
          \<and> ((\<forall>v. isGeneratingPresentation v \<longrightarrow> f1 v = f1' v) \<longrightarrow>
                handleGenerateFullPresentation ctx r r1 f1 r2 ps f2 w =
                  handleGenerateFullPresentation ctx r r1 f1' r2 ps f2 w)
          \<and> \<not> isGeneratingPresentation (snd (handleGenerateFullPresentation ctx r r1 f1 r2 ps f2 w)))
       \<and> (truthy (aiExplanation m) \<longrightarrow>
            handleGenerateBlockDiagram ctx r dres f w =
              diagram_finish ctx m dres (suspend f (diagram_begin w))
          \<and> isGeneratingDiagram (diagram_begin w)
          \<and> ((\<forall>v. isGeneratingDiagram v \<longrightarrow> f v = f' v) \<longrightarrow>
                handleGenerateBlockDiagram ctx r dres f w = handleGenerateBlockDiagram ctx r dres f' w)
          \<and> \<not> isGeneratingDiagram (snd (handleGenerateBlockDiagram ctx r dres f w)))
       \<and> (truthy (aiExplanation m) \<longrightarrow>
            handleGenerateVideo ctx r vres ps f w =
              video_finish ctx m vres (video_progress ps (suspend f (video_begin w)))
          \<and> isLoading (video_begin w) ''video'' = Some True
          \<and> ((\<forall>v. isLoading v ''video'' = Some True \<longrightarrow> f v = f' v) \<longrightarrow>
                handleGenerateVideo ctx r vres ps f w = handleGenerateVideo ctx r vres ps f' w)
          \<and> isLoading (snd (handleGenerateVideo ctx r vres ps f w)) ''video'' = Some False)
       \<and> (material_id m \<noteq> [] \<and> textToSend \<noteq> [] \<longrightarrow>
            (case updateStudyMaterial ctx (studyMaterials w) (material_id m)
                    [Set_chatHistory (Some (or_empty (chatHistory m) @ [userMessage (at_send cs) textToSend]))] of
               Inr s \<Rightarrow>
                 handleSendMessage ctx r cs textOverride None send_r f w =
                   handleSendMessage_finish ctx m textToSend cs send_r
                     (suspend f (snd (handleSendMessage_begin ctx m textToSend cs None w)))
                 \<and> fst (handleSendMessage_begin ctx m textToSend cs None w) = Suspended
                 \<and> isAwaitingChatResponse (snd (handleSendMessage_begin ctx m textToSend cs None w))
                 \<and> ((\<forall>v. isAwaitingChatResponse v \<longrightarrow> f v = f' v) \<longrightarrow>
                       handleSendMessage ctx r cs textOverride chat_r send_r f w =
                         handleSendMessage ctx r cs textOverride chat_r send_r f' w)
                 \<and> \<not> isAwaitingChatResponse
                       (snd (handleSendMessage ctx r cs textOverride chat_r send_r f w))
             | Inl err \<Rightarrow>
                 handleSendMessage ctx r cs textOverride chat_r send_r f w =
                   (Some err,
                    w\<lparr>effects := effects w @
                         [StoreWrite (material_id m)
                            [Set_chatHistory (Some (or_empty (chatHistory m)
                               @ [userMessage (at_send cs) textToSend]))]]\<rparr>)))"
proof -
  have generate: "handleGenerate ctx r ty g res f w =
              handleGenerate_finish ctx m (selectedNoteLength r) ty res
                (suspend f (handleGenerate_begin ty g w))
          \<and> isLoading (handleGenerate_begin ty g w) (type_key ty) = Some True
          \<and> ((\<forall>v. isLoading v (type_key ty) = Some True \<longrightarrow> f v = f' v) \<longrightarrow>
                handleGenerate ctx r ty g res f w = handleGenerate ctx r ty g res f' w)
          \<and> isLoading (snd (handleGenerate ctx r ty g res f w)) (type_key ty) = Some False"
    if "material_id m \<noteq> []"
  proof -
    have run: "handleGenerate ctx r ty g res h w =
              handleGenerate_finish ctx m (selectedNoteLength r) ty res
                (suspend h (handleGenerate_begin ty g w))" for h
      using assms(1) that by (simp add: handleGenerate_def)
    have flag: "isLoading (handleGenerate_begin ty g w) (type_key ty) = Some True"
      by (simp add: handleGenerate_begin_def call_def)
    have "handleGenerate ctx r ty g res f w = handleGenerate ctx r ty g res f' w"
      if "\<forall>v. isLoading v (type_key ty) = Some True \<longrightarrow> f v = f' v"
    proof -
      from that flag have "f (handleGenerate_begin ty g w) = f' (handleGenerate_begin ty g w)" by blast
      then have "suspend f (handleGenerate_begin ty g w) = suspend f' (handleGenerate_begin ty g w)"
        by (simp add: suspend_def)
      then show ?thesis by (simp add: run)
    qed
    with run flag show ?thesis
      by (simp add: generate_flag_cleared)
  qed
  have presentation: "handleGenerateFullPresentation ctx r r1 f1 r2 ps f2 w =
              (case presentation_afterContent ctx m r1 (suspend f1 (presentation_begin w)) of
                 (Finished x, w1) \<Rightarrow> (x, w1)
               | (Suspended, w1) \<Rightarrow>
                   presentation_afterImages ctx m r2 (presentation_progress ps (suspend f2 w1)))
          \<and> isGeneratingPresentation (presentation_begin w)
          \<and> ((\<forall>v. isGeneratingPresentation v \<longrightarrow> f1 v = f1' v) \<longrightarrow>
                handleGenerateFullPresentation ctx r r1 f1 r2 ps f2 w =
                  handleGenerateFullPresentation ctx r r1 f1' r2 ps f2 w)
          \<and> \<not> isGeneratingPresentation (snd (handleGenerateFullPresentation ctx r r1 f1 r2 ps f2 w))"
    if "material_id m \<noteq> []" "truthy (aiExplanation m)"
  proof -
    have run: "handleGenerateFullPresentation ctx r r1 h r2 ps f2 w =
              (case presentation_afterContent ctx m r1 (suspend h (presentation_begin w)) of
                 (Finished x, w1) \<Rightarrow> (x, w1)
               | (Suspended, w1) \<Rightarrow>
                   presentation_afterImages ctx m r2 (presentation_progress ps (suspend f2 w1)))" for h
      using assms(1) that by (simp add: handleGenerateFullPresentation_def)
    have flag: "isGeneratingPresentation (presentation_begin w)"
      by (simp add: presentation_begin_def call_def)
    have "handleGenerateFullPresentation ctx r r1 f1 r2 ps f2 w =
            handleGenerateFullPresentation ctx r r1 f1' r2 ps f2 w"
      if "\<forall>v. isGeneratingPresentation v \<longrightarrow> f1 v = f1' v"
    proof -
      from that flag have "f1 (presentation_begin w) = f1' (presentation_begin w)" by blast
      then have "suspend f1 (presentation_begin w) = suspend f1' (presentation_begin w)"
        by (simp add: suspend_def)
      then show ?thesis by (simp add: run)
    qed
    with run [of f1] flag presentation_flag_cleared [OF assms(1) \<open>material_id m \<noteq> []\<close> \<open>truthy (aiExplanation m)\<close>]
    show ?thesis
      by blast
  qed
  have diagram: "handleGenerateBlockDiagram ctx r dres f w =
              diagram_finish ctx m dres (suspend f (diagram_begin w))
          \<and> isGeneratingDiagram (diagram_begin w)
          \<and> ((\<forall>v. isGeneratingDiagram v \<longrightarrow> f v = f' v) \<longrightarrow>
                handleGenerateBlockDiagram ctx r dres f w = handleGenerateBlockDiagram ctx r dres f' w)
          \<and> \<not> isGeneratingDiagram (snd (handleGenerateBlockDiagram ctx r dres f w))"
    if "truthy (aiExplanation m)"
  proof -
    have run: "handleGenerateBlockDiagram ctx r dres h w =
              diagram_finish ctx m dres (suspend h (diagram_begin w))" for h
      using assms(1) that by (simp add: handleGenerateBlockDiagram_def)
    have flag: "isGeneratingDiagram (diagram_begin w)"
      by (simp add: diagram_begin_def call_def)
    have "handleGenerateBlockDiagram ctx r dres f w = handleGenerateBlockDiagram ctx r dres f' w"
      if "\<forall>v. isGeneratingDiagram v \<longrightarrow> f v = f' v"
    proof -
      from that flag have "f (diagram_begin w) = f' (diagram_begin w)" by blast
      then have "suspend f (diagram_begin w) = suspend f' (diagram_begin w)"
        by (simp add: suspend_def)
      then show ?thesis by (simp add: run)
    qed
    with run flag show ?thesis
      by (simp add: diagram_flag_cleared)
  qed
  have video: "handleGenerateVideo ctx r vres ps f w =
              video_finish ctx m vres (video_progress ps (suspend f (video_begin w)))
          \<and> isLoading (video_begin w) ''video'' = Some True
          \<and> ((\<forall>v. isLoading v ''video'' = Some True \<longrightarrow> f v = f' v) \<longrightarrow>
                handleGenerateVideo ctx r vres ps f w = handleGenerateVideo ctx r vres ps f' w)
          \<and> isLoading (snd (handleGenerateVideo ctx r vres ps f w)) ''video'' = Some False"
    if "truthy (aiExplanation m)"
  proof -
    have run: "handleGenerateVideo ctx r vres ps h w =
              video_finish ctx m vres (video_progress ps (suspend h (video_begin w)))" for h
      using assms(1) that by (simp add: handleGenerateVideo_def)
    have flag: "isLoading (video_begin w) ''video'' = Some True"
      by (simp add: video_begin_def call_def)
    have "handleGenerateVideo ctx r vres ps f w = handleGenerateVideo ctx r vres ps f' w"
      if "\<forall>v. isLoading v ''video'' = Some True \<longrightarrow> f v = f' v"
    proof -
      from that flag have "f (video_begin w) = f' (video_begin w)" by blast
      then have "suspend f (video_begin w) = suspend f' (video_begin w)"
        by (simp add: suspend_def)
      then show ?thesis by (simp add: run)
    qed
    with run flag show ?thesis
      by (simp add: video_flag_cleared)
  qed
  have chat: "(case updateStudyMaterial ctx (studyMaterials w) (material_id m)
                    [Set_chatHistory (Some (or_empty (chatHistory m) @ [userMessage (at_send cs) textToSend]))] of
               Inr s \<Rightarrow>
                 handleSendMessage ctx r cs textOverride None send_r f w =
                   handleSendMessage_finish ctx m textToSend cs send_r
                     (suspend f (snd (handleSendMessage_begin ctx m textToSend cs None w)))
                 \<and> fst (handleSendMessage_begin ctx m textToSend cs None w) = Suspended
                 \<and> isAwaitingChatResponse (snd (handleSendMessage_begin ctx m textToSend cs None w))
                 \<and> ((\<forall>v. isAwaitingChatResponse v \<longrightarrow> f v = f' v) \<longrightarrow>
                       handleSendMessage ctx r cs textOverride chat_r send_r f w =
                         handleSendMessage ctx r cs textOverride chat_r send_r f' w)
                 \<and> \<not> isAwaitingChatResponse
                       (snd (handleSendMessage ctx r cs textOverride chat_r send_r f w))
             | Inl err \<Rightarrow>
                 handleSendMessage ctx r cs textOverride chat_r send_r f w =
                   (Some err,
                    w\<lparr>effects := effects w @
                         [StoreWrite (material_id m)
                            [Set_chatHistory (Some (or_empty (chatHistory m)
                               @ [userMessage (at_send cs) textToSend]))]]\<rparr>))"
    if guard: "material_id m \<noteq> []" "textToSend \<noteq> []"
  proof (cases "updateStudyMaterial ctx (studyMaterials w) (material_id m)
                  [Set_chatHistory (Some (or_empty (chatHistory m) @ [userMessage (at_send cs) textToSend]))]")
    case (Inl err)
    then show ?thesis
      using assms guard by (simp add: handleSendMessage_def Let_def chat_begin_rejected)
  next
    case (Inr s)
    let ?v = "snd (handleSendMessage_begin ctx m textToSend cs None w)"
    have first: "fst (handleSendMessage_begin ctx m textToSend cs None w) = Suspended"
      by (simp add: chat_begin_written(1) [OF Inr])
    have flag: "isAwaitingChatResponse ?v"
      by (simp add: chat_begin_written(1) [OF Inr])
    have run: "handleSendMessage ctx r cs textOverride None send_r h w =
                   handleSendMessage_finish ctx m textToSend cs send_r (suspend h ?v)" for h
      using assms guard by (simp add: handleSendMessage_def Let_def chat_begin_written(1) [OF Inr])
    have "handleSendMessage ctx r cs textOverride chat_r send_r f w =
                  handleSendMessage ctx r cs textOverride chat_r send_r f' w"
      if agree: "\<forall>v. isAwaitingChatResponse v \<longrightarrow> f v = f' v"
    proof (cases chat_r)
      case None
      from agree flag have "f ?v = f' ?v" by blast
      then have "suspend f ?v = suspend f' ?v"
        by (simp add: suspend_def)
      with None show ?thesis by (simp add: run)
    next
      case (Some e)
      have "\<exists>x. fst (handleSendMessage_begin ctx m textToSend cs (Some e) w) = Finished x"
        by (simp add: handleSendMessage_begin_def split: prod.splits option.splits)
      then obtain x v where "handleSendMessage_begin ctx m textToSend cs (Some e) w = (Finished x, v)"
        by (cases "handleSendMessage_begin ctx m textToSend cs (Some e) w") auto
      with Some assms guard show ?thesis
        by (simp add: handleSendMessage_def Let_def)
    qed
    then have same: "(\<forall>v. isAwaitingChatResponse v \<longrightarrow> f v = f' v) \<longrightarrow>
        handleSendMessage ctx r cs textOverride chat_r send_r f w =
          handleSendMessage ctx r cs textOverride chat_r send_r f' w"
      by blast
    have cleared: "\<not> isAwaitingChatResponse
        (snd (handleSendMessage ctx r cs textOverride chat_r send_r f w))"
      by (rule chat_flag_cleared [OF assms(1) guard(1) assms(2) guard(2) Inr])
    from first flag run [of f] same cleared show ?thesis
      by (simp only: Inr sum.case) blast
  qed
  from generate presentation diagram video chat show ?thesis
    by blast
qed


text \<open>
  A first explanation generation and a chat message on a material that has no explanation,
  and notes, presentation, diagram and video generation on one that has, most of them on
  a store whose update throws.
\<close>

theorem in_progress_flag_cleared_witness:
  "isLoading (handleGenerate_begin Explanation GenerateExplanation page_0) ''explanation'' = Some True
   \<and> isLoading (snd (handleGenerate failing_store page_0 Explanation GenerateExplanation
                        (Inr ''A cell splits in two.'') id page_0)) ''explanation'' = Some False
   \<and> isLoading (snd (handleGenerate failing_store page_1 Notes GenerateNotes (Inr ''detailed notes'') id
                        page_1)) ''notes'' = Some False
   \<and> \<not> isGeneratingPresentation
         (snd (handleGenerateFullPresentation failing_store page_1
                 (Inr (Some (deck [slide_without_image]))) id (Inl (Error ''Network error'')) [] id page_1))
   \<and> \<not> isGeneratingDiagram
         (snd (handleGenerateBlockDiagram failing_store page_1 (Inl (Error ''Network error'')) id page_1))
   \<and> isLoading (snd (handleGenerateVideo failing_store page_1 (Inr (Some [scene_1])) [] id page_1))
         ''video'' = Some False
   \<and> isAwaitingChatResponse
         (snd (handleSendMessage_begin UploadedContentContext material_0 ''Why?'' clocks_1 None page_0))
   \<and> \<not> isAwaitingChatResponse
         (snd (handleSendMessage UploadedContentContext page_0 clocks_1 None None
                 (Inl (Error ''Network error'')) id page_0))
   \<and> fst (handleSendMessage failing_store page_0 clocks_1 None None
                 (Inl (Error ''Network error'')) id page_0) = Some (Error ''QuotaExceededError'')"
proof -
  have loaded0: "material page_0 = Some material_0"
    by (simp add: page_0_def)
  have facts0: "material_id material_0 \<noteq> []" "\<not> truthy (aiExplanation material_0)"
    by (simp_all add: material_0_def material_1_def truthy_def)
  have ident: "material_id material_1 \<noteq> []"
    by (simp add: page_1_loaded)
  have trimmed0: "trim (case None of None \<Rightarrow> chatInput page_0 | Some t \<Rightarrow> t) = ''Why?''"
    by (simp add: page_0_def page_1_def trim_def is_space_def)
  have trimmed: "trim (case None of None \<Rightarrow> chatInput page_1 | Some t \<Rightarrow> t) = ''Why?''"
    by (simp add: page_1_def trim_def is_space_def)
  have nonempty: "''Why?'' \<noteq> []"
    by simp
  have written: "updateStudyMaterial UploadedContentContext s i p = Inr (update_by_id s i p)" for s i p
    by (simp add: UploadedContentContext_def)
  have thrown: "updateStudyMaterial failing_store s i p = Inl (Error ''QuotaExceededError'')" for s i p
    by (simp add: failing_store_def)
  note noexpl = in_progress_flag_cleared [OF loaded0 trimmed0,
      where w = page_0 and f = id and f' = id and cs = clocks_1 and chat_r = None
        and send_r = "Inl (Error ''Network error'')" and ty = Explanation
        and g = GenerateExplanation and res = "Inr ''A cell splits in two.''"
        and ?r1.0 = "Inr (Some (deck [slide_without_image]))" and ?f1.0 = id and ?f1' = id
        and ?r2.0 = "Inl (Error ''Network error'')" and ps = "[]" and ?f2.0 = id
        and dres = "Inl (Error ''Network error'')" and vres = "Inr (Some [scene_1])"]
  note expl = in_progress_flag_cleared [OF page_1_loaded(1) trimmed,
      where ctx = failing_store and w = page_1 and f = id and f' = id and ty = Notes
        and g = GenerateNotes and res = "Inr ''detailed notes''"
        and ?r1.0 = "Inr (Some (deck [slide_without_image]))" and ?f1.0 = id and ?f1' = id
        and ?r2.0 = "Inl (Error ''Network error'')" and ps = "[]" and ?f2.0 = id
        and dres = "Inl (Error ''Network error'')" and vres = "Inr (Some [scene_1])"
        and cs = clocks_1 and chat_r = None
        and send_r = "Inl (Error ''Network error'')"]
  have keys: "type_key Explanation = ''explanation''" "type_key Notes = ''notes''"
    by simp_all
  from noexpl [where ctx = failing_store, unfolded keys] facts0(1)
  have a: "isLoading (handleGenerate_begin Explanation GenerateExplanation page_0) ''explanation'' = Some True
     \<and> isLoading (snd (handleGenerate failing_store page_0 Explanation GenerateExplanation
                        (Inr ''A cell splits in two.'') id page_0)) ''explanation'' = Some False"
    by blast
  from expl [unfolded keys] ident page_1_loaded(3)
  have b: "isLoading (snd (handleGenerate failing_store page_1 Notes GenerateNotes (Inr ''detailed notes'') id
                        page_1)) ''notes'' = Some False
     \<and> \<not> isGeneratingPresentation
         (snd (handleGenerateFullPresentation failing_store page_1
                 (Inr (Some (deck [slide_without_image]))) id (Inl (Error ''Network error'')) [] id page_1))
     \<and> \<not> isGeneratingDiagram
         (snd (handleGenerateBlockDiagram failing_store page_1 (Inl (Error ''Network error'')) id page_1))
     \<and> isLoading (snd (handleGenerateVideo failing_store page_1 (Inr (Some [scene_1])) [] id page_1))
         ''video'' = Some False"
    by blast
  from noexpl [where ctx = UploadedContentContext, unfolded written sum.case] facts0(1) nonempty
  have c: "isAwaitingChatResponse
         (snd (handleSendMessage_begin UploadedContentContext material_0 ''Why?'' clocks_1 None page_0))
     \<and> \<not> isAwaitingChatResponse
         (snd (handleSendMessage UploadedContentContext page_0 clocks_1 None None
                 (Inl (Error ''Network error'')) id page_0))"
    by blast
  from noexpl [where ctx = failing_store, unfolded thrown sum.case] facts0(1) nonempty
  have "handleSendMessage failing_store page_0 clocks_1 None None
                 (Inl (Error ''Network error'')) id page_0 =
          (Some (Error ''QuotaExceededError''),
           page_0\<lparr>effects := effects page_0 @
                [StoreWrite (material_id material_0)
                   [Set_chatHistory (Some (or_empty (chatHistory material_0)
                      @ [userMessage (at_send clocks_1) ''Why?'']))]]\<rparr>)"
    by blast
  then have d: "fst (handleSendMessage failing_store page_0 clocks_1 None None
                 (Inl (Error ''Network error'')) id page_0) = Some (Error ''QuotaExceededError'')"
    by simp
  from a b c d show ?thesis
    by blast
qed

text \<open>
  The claim as stated counts chat among the features whose flag is set at the start and
  false after completion even if the store update throws. With a store whose update
  throws, sending a message rejects after the attempted write and changes nothing else, so
  the flag is never set; and a flag that was true before is still true afterwards.
\<close>

theorem chat_flag_untouched_counterexample:
  "handleSendMessage failing_store page_1 clocks_1 None None (Inr reply_1) id page_1
     = (Some (Error ''QuotaExceededError''),
        page_1\<lparr>effects :=
          [StoreWrite ''m1''
             [Set_chatHistory (Some [message_A, message_B, userMessage (at_send clocks_1) ''Why?''])]]\<rparr>)
   \<and> isAwaitingChatResponse
        (snd (handleSendMessage failing_store page_1 clocks_1 None None (Inr reply_1) id
                (page_1\<lparr>isAwaitingChatResponse := True\<rparr>)))"
proof -
  have trimmed: "trim (chatInput page_1) = ''Why?''"
    by (simp add: page_1_def trim_def is_space_def)
  have thrown: "updateStudyMaterial failing_store s i p = Inl (Error ''QuotaExceededError'')" for s i p
    by (simp add: failing_store_def)
  have history: "or_empty (chatHistory material_1) = [message_A, message_B]"
    by (simp add: material_1_def or_empty_def)
  have empty_log: "effects page_1 = []"
    by (simp add: page_1_def)
  show ?thesis
    using trimmed
    by (simp add: handleSendMessage_def Let_def chat_begin_rejected [OF thrown] page_1_loaded
          history empty_log)
qed

end
